theory Spec2Isabelle
  imports Complex_Main
begin

unbundle bit_operations_syntax

section \<open>Values\<close>

text \<open>
  Python floats are modelled as the reals extended with not-a-number. Rounding, overflow
  and the two infinities are not modelled; every result below that mentions an arithmetic
  operation states it through the same operation of this section, so it says which
  formula the driver evaluates, not how the hardware rounds it. In Python \<open>x ** 2\<close>
  raises \<open>OverflowError\<close> where the square overflows, and \<open>math.sin\<close> and
  \<open>math.cos\<close> raise \<open>ValueError\<close> on an infinity; with neither overflow nor
  infinities in the model, these exceptions have no counterpart here.
\<close>

datatype pyfloat = Finite real | NaN

fun isnan :: "pyfloat \<Rightarrow> bool" where
  "isnan NaN = True"
| "isnan (Finite _) = False"

text \<open>The comparison \<open>x < 0\<close>: false on not-a-number.\<close>

fun is_negative :: "pyfloat \<Rightarrow> bool" where
  "is_negative (Finite r) = (r < 0)"
| "is_negative NaN = False"

fun fneg :: "pyfloat \<Rightarrow> pyfloat" where
  "fneg (Finite r) = Finite (- r)"
| "fneg NaN = NaN"

fun fadd :: "pyfloat \<Rightarrow> pyfloat \<Rightarrow> pyfloat" where
  "fadd (Finite a) (Finite b) = Finite (a + b)"
| "fadd _ _ = NaN"

fun fmul :: "pyfloat \<Rightarrow> pyfloat \<Rightarrow> pyfloat" where
  "fmul (Finite a) (Finite b) = Finite (a * b)"
| "fmul _ _ = NaN"

text \<open>\<open>x ** 2\<close>\<close>

fun fsquare :: "pyfloat \<Rightarrow> pyfloat" where
  "fsquare (Finite a) = Finite (a ^ 2)"
| "fsquare NaN = NaN"

fun fsin :: "pyfloat \<Rightarrow> pyfloat" where
  "fsin (Finite a) = Finite (sin a)"
| "fsin NaN = NaN"

fun fcos :: "pyfloat \<Rightarrow> pyfloat" where
  "fcos (Finite a) = Finite (cos a)"
| "fcos NaN = NaN"

text \<open>
  \<open>rospy.Time(secs, nsecs)\<close>, an external constructor, kept as a free constructor.
  A time object is truthy unless both parts are zero.
\<close>

datatype rostime = Time pyfloat int

fun time_nonzero :: "rostime \<Rightarrow> bool" where
  "time_nonzero (Time s n) = (s \<noteq> Finite 0 \<or> n \<noteq> 0)"

datatype pyval =
    PNone
  | PBool bool
  | PInt int
  | PFloat pyfloat
  | PStr string
  | PTime rostime
  | PList "pyval list"

text \<open>Python truthiness, as the test \<open>if data['rudder_angle']:\<close> applies it.\<close>

fun truthy :: "pyval \<Rightarrow> bool" where
  "truthy PNone = False"
| "truthy (PBool b) = b"
| "truthy (PInt i) = (i \<noteq> 0)"
| "truthy (PFloat x) = (x \<noteq> Finite 0)"
| "truthy (PStr s) = (s \<noteq> [])"
| "truthy (PTime t) = time_nonzero t"
| "truthy (PList xs) = (xs \<noteq> [])"

section \<open>Messages\<close>

datatype nav_status = STATUS_NO_FIX | STATUS_FIX | STATUS_SBAS_FIX | STATUS_GBAS_FIX

datatype covariance_type =
    COVARIANCE_TYPE_UNKNOWN
  | COVARIANCE_TYPE_APPROXIMATED
  | COVARIANCE_TYPE_DIAGONAL_KNOWN
  | COVARIANCE_TYPE_KNOWN

definition SERVICE_GPS :: nat where
  "SERVICE_GPS = 1"

record nav_sat_fix =
  fix_stamp :: rostime
  fix_frame_id :: string
  fix_status :: nav_status
  fix_service :: nat
  fix_latitude :: pyfloat
  fix_longitude :: pyfloat
  fix_altitude :: pyfloat
  fix_position_covariance :: "pyfloat list"
  fix_position_covariance_type :: covariance_type

text \<open>\<open>NavSatFix()\<close>: every numeric field zero, status 0 (\<open>STATUS_FIX\<close>), nine zero
  covariance entries, covariance type 0 (\<open>COVARIANCE_TYPE_UNKNOWN\<close>).\<close>

definition NavSatFix :: nav_sat_fix where
  "NavSatFix = \<lparr> fix_stamp = Time (Finite 0) 0, fix_frame_id = [],
     fix_status = STATUS_FIX, fix_service = 0,
     fix_latitude = Finite 0, fix_longitude = Finite 0, fix_altitude = Finite 0,
     fix_position_covariance = replicate 9 (Finite 0),
     fix_position_covariance_type = COVARIANCE_TYPE_UNKNOWN \<rparr>"

record time_reference =
  tr_stamp :: rostime
  tr_frame_id :: string
  tr_time_ref :: rostime
  tr_source :: string

definition TimeReference :: time_reference where
  "TimeReference = \<lparr> tr_stamp = Time (Finite 0) 0, tr_frame_id = [],
     tr_time_ref = Time (Finite 0) 0, tr_source = [] \<rparr>"

text \<open>\<open>TwistStamped\<close>: only \<open>twist.linear.x\<close> and \<open>twist.linear.y\<close> are ever assigned;
  the other four components keep their default zero and are left out.\<close>

record twist_stamped =
  vel_stamp :: rostime
  vel_frame_id :: string
  vel_linear_x :: pyfloat
  vel_linear_y :: pyfloat

record header_string =
  hs_stamp :: rostime
  hs_data :: string

text \<open>
  One constructor per publisher family. An auxiliary message is the topic it is published
  on and the attribute assignments the translator makes, in source order.
\<close>

datatype report =
    NmeaSentence header_string
  | Fix nav_sat_fix
  | TimeRef time_reference
  | Vel twist_stamped
  | Aux string "(string \<times> pyval) list"

section \<open>Decoded sentences\<close>

text \<open>
  Modelled from the spec: the result type of \<open>libnmea_navsat_driver.parser.parse_nmea_sentence\<close>,
  which is not part of the source at hand. The spec describes it as a mapping from field
  name to typed value, tagged with a sentence-type identifier, with stable field types per
  sentence type. A decoded sentence carries one tag. The three sentence types of the fusion
  engine get a record each, with the fields \<open>add_sentence\<close> reads and the types it uses
  them at; the auxiliary types carry a lookup from field name to value; \<open>Other\<close> stands
  for any tag the chain of tests in \<open>add_sentence\<close> does not name.
\<close>

record gga_data =
  gga_utc_time :: "pyfloat \<times> int"
  gga_fix_type :: int
  gga_latitude :: pyfloat
  gga_latitude_direction :: string
  gga_longitude :: pyfloat
  gga_longitude_direction :: string
  gga_altitude :: pyfloat
  gga_mean_sea_level :: pyfloat
  gga_hdop :: pyfloat

record rmc_data =
  rmc_utc_time :: "pyfloat \<times> int"
  rmc_fix_valid :: bool
  rmc_latitude :: pyfloat
  rmc_latitude_direction :: string
  rmc_longitude :: pyfloat
  rmc_longitude_direction :: string
  rmc_speed :: pyfloat
  rmc_true_course :: pyfloat

record gst_data =
  gst_lon_std_dev :: pyfloat
  gst_lat_std_dev :: pyfloat
  gst_alt_std_dev :: pyfloat

type_synonym fields = "string \<Rightarrow> pyval"

datatype parsed_sentence =
    GGA gga_data
  | RMC rmc_data
  | GST gst_data
  | HDT fields
  | RSA fields
  | GSA fields
  | ZDA fields
  | RPM fields
  | HDG fields
  | ROT fields
  | GSV fields
  | VTG fields
  | VBW fields
  | GLL fields
  | VDM fields
  | VDO fields
  | Other string fields

section \<open>The driver object\<close>

text \<open>The parameters \<open>__init__\<close> reads; nothing assigns them afterwards.\<close>

record config =
  use_GNSS_time :: bool
  time_ref_source :: "string option"
  use_RMC :: bool
  default_epe_quality0 :: pyfloat
  default_epe_quality1 :: pyfloat
  default_epe_quality2 :: pyfloat
  default_epe_quality4 :: pyfloat
  default_epe_quality5 :: pyfloat
  default_epe_quality9 :: pyfloat

text \<open>The attributes \<open>add_sentence\<close> assigns. \<open>last_valid_fix_time\<close> does not exist
  until the GGA branch first sets it.\<close>

record fusion_state =
  valid_fix :: bool
  using_receiver_epe :: bool
  lon_std_dev :: pyfloat
  lat_std_dev :: pyfloat
  alt_std_dev :: pyfloat
  last_valid_fix_time :: "time_reference option"

definition init_state :: fusion_state where
  "init_state = \<lparr> valid_fix = False, using_receiver_epe = False,
     lon_std_dev = NaN, lat_std_dev = NaN, alt_std_dev = NaN,
     last_valid_fix_time = None \<rparr>"

definition gps_qualities :: "config \<Rightarrow> (int \<times> pyfloat \<times> nav_status \<times> covariance_type) list" where
  "gps_qualities self =
    [(- 1, default_epe_quality0 self, STATUS_NO_FIX, COVARIANCE_TYPE_UNKNOWN),
     (0, default_epe_quality0 self, STATUS_NO_FIX, COVARIANCE_TYPE_UNKNOWN),
     (1, default_epe_quality1 self, STATUS_FIX, COVARIANCE_TYPE_APPROXIMATED),
     (2, default_epe_quality2 self, STATUS_SBAS_FIX, COVARIANCE_TYPE_APPROXIMATED),
     (4, default_epe_quality4 self, STATUS_GBAS_FIX, COVARIANCE_TYPE_APPROXIMATED),
     (5, default_epe_quality5 self, STATUS_GBAS_FIX, COVARIANCE_TYPE_APPROXIMATED),
     (9, default_epe_quality9 self, STATUS_GBAS_FIX, COVARIANCE_TYPE_APPROXIMATED)]"

text \<open>The two helpers \<open>add_sentence\<close> imports from modules that are not part of the source
  at hand; they are parameters of the model.\<close>

record collaborators =
  check_nmea_checksum :: "string \<Rightarrow> bool"
  parse_nmea_sentence :: "string \<Rightarrow> parsed_sentence option"

section \<open>The raw echo (lines 193 to 209)\<close>

text \<open>\<open>str.split(sep)\<close> for a one-character separator.\<close>

fun split_str :: "char \<Rightarrow> string \<Rightarrow> string list" where
  "split_str sep [] = [[]]"
| "split_str sep (c # cs) =
     (if c = sep then [] # split_str sep cs
      else (case split_str sep cs of
              [] \<Rightarrow> [[c]]
            | p # ps \<Rightarrow> (c # p) # ps))"

definition backslash :: char where
  "backslash = CHR 0x5C"

definition crlf :: string where
  "crlf = [CHR 0x0D, CHR 0x0A]"

text \<open>The test a fragment passes to be echoed. \<open>sentence[0]\<close> on an empty fragment
  raises \<open>IndexError\<close>, which the inner \<open>except\<close> swallows: no echo.\<close>

definition echo_wanted :: "string \<Rightarrow> bool" where
  "echo_wanted sentence =
     (case sentence of
        [] \<Rightarrow> False
      | c # _ \<Rightarrow>
          (c = CHR ''$'' \<or> c = CHR ''!'') \<and>
          take 6 sentence \<noteq> ''$MXPGN'' \<and> take 9 sentence \<noteq> ''$PSMDSTAT'' \<and>
          take 6 sentence \<noteq> ''$AGRSA'' \<and> take 6 sentence \<noteq> ''$ERRPM'')"

text \<open>The clock is read once per echoed fragment; \<open>get_rostime k\<close> is the value of the
  \<open>k\<close>-th reading during the call.\<close>

definition raw_echo :: "(nat \<Rightarrow> rostime) \<Rightarrow> string \<Rightarrow> report list" where
  "raw_echo get_rostime nmea_string =
     map (\<lambda>(k, nmea_str). NmeaSentence \<lparr> hs_stamp = get_rostime k, hs_data = nmea_str @ crlf \<rparr>)
       (enumerate 0 (filter echo_wanted (split_str backslash nmea_string)))"

section \<open>The handlers of \<open>add_sentence\<close>\<close>

text \<open>
  Each branch of the \<open>if\<close>/\<open>elif\<close> chain is a function from the driver state, the
  decoded data, the call's time and frame id to the new state, the messages published in
  order, and the value returned: \<open>Some False\<close> for \<open>return False\<close>, \<open>None\<close> for
  falling off the end of the method (Python's \<open>None\<close>).
\<close>

type_synonym outcome = "fusion_state \<times> report list \<times> bool option"

text \<open>The \<open>TimeReference\<close> prepared at lines 232 to 238 (only built, and only used,
  when \<open>use_GNSS_time\<close> is off).\<close>

definition current_time_ref :: "config \<Rightarrow> rostime \<Rightarrow> string \<Rightarrow> time_reference" where
  "current_time_ref self current_time frame_id =
     TimeReference \<lparr> tr_stamp := current_time, tr_frame_id := frame_id,
       tr_source := (case time_ref_source self of
                       None \<Rightarrow> frame_id
                     | Some src \<Rightarrow> if src \<noteq> [] then src else frame_id) \<rparr>"

text \<open>Lines 252 to 255: the code looked up, replaced by \<open>-1\<close> when it is not a key.\<close>

definition effective_fix_type :: "config \<Rightarrow> int \<Rightarrow> int" where
  "effective_fix_type self fix_type =
     (if fix_type \<in> fst ` set (gps_qualities self) then fix_type else - 1)"

text \<open>Lines 240 to 299.\<close>

definition handle_GGA :: "config \<Rightarrow> fusion_state \<Rightarrow> gga_data \<Rightarrow> rostime \<Rightarrow> string \<Rightarrow> outcome" where
  "handle_GGA self st data current_time frame_id =
     (if use_GNSS_time self \<and> isnan (fst (gga_utc_time data)) then (st, [], Some False)
      else
        let stamp = (if use_GNSS_time self
                     then Time (fst (gga_utc_time data)) (snd (gga_utc_time data))
                     else current_time);
            fix_type = effective_fix_type self (gga_fix_type data);
            gps_qual = the (map_of (gps_qualities self) fix_type);
            default_epe = fst gps_qual;
            st1 = st \<lparr> valid_fix := (fix_type > 0) \<rparr>;
            latitude = (if gga_latitude_direction data = ''S''
                        then fneg (gga_latitude data) else gga_latitude data);
            longitude = (if gga_longitude_direction data = ''W''
                         then fneg (gga_longitude data) else gga_longitude data);
            altitude = fadd (gga_altitude data) (gga_mean_sea_level data);
            st2 = (if \<not> using_receiver_epe st1 \<or> isnan (lon_std_dev st1)
                   then st1 \<lparr> lon_std_dev := default_epe \<rparr> else st1);
            st3 = (if \<not> using_receiver_epe st2 \<or> isnan (lat_std_dev st2)
                   then st2 \<lparr> lat_std_dev := default_epe \<rparr> else st2);
            st4 = (if \<not> using_receiver_epe st3 \<or> isnan (alt_std_dev st3)
                   then st3 \<lparr> alt_std_dev := fmul default_epe (Finite 2) \<rparr> else st3);
            hdop = gga_hdop data;
            current_fix = NavSatFix \<lparr>
              fix_stamp := stamp,
              fix_frame_id := frame_id,
              fix_status := fst (snd gps_qual),
              fix_service := SERVICE_GPS,
              fix_latitude := latitude,
              fix_longitude := longitude,
              fix_altitude := altitude,
              fix_position_covariance := (fix_position_covariance NavSatFix)
                [0 := fsquare (fmul hdop (lon_std_dev st4)),
                 4 := fsquare (fmul hdop (lat_std_dev st4)),
                 8 := fsquare (fmul (fmul (Finite 2) hdop) (alt_std_dev st4))],
              fix_position_covariance_type := snd (snd gps_qual) \<rparr>
        in if \<not> (isnan (fst (gga_utc_time data)) \<or> use_GNSS_time self)
           then
             let ref = (current_time_ref self current_time frame_id)
                         \<lparr> tr_time_ref := Time (fst (gga_utc_time data)) (snd (gga_utc_time data)) \<rparr>
             in (st4 \<lparr> last_valid_fix_time := Some ref \<rparr>, [Fix current_fix, TimeRef ref], None)
           else (st4, [Fix current_fix], None))"

text \<open>Lines 302 to 351.\<close>

definition handle_RMC :: "config \<Rightarrow> fusion_state \<Rightarrow> rmc_data \<Rightarrow> rostime \<Rightarrow> string \<Rightarrow> outcome" where
  "handle_RMC self st data current_time frame_id =
     (if use_GNSS_time self \<and> isnan (fst (rmc_utc_time data)) then (st, [], Some False)
      else
        let stamp = (if use_GNSS_time self
                     then Time (fst (rmc_utc_time data)) (snd (rmc_utc_time data))
                     else current_time);
            position =
              (if use_RMC self then
                 let latitude = (if rmc_latitude_direction data = ''S''
                                 then fneg (rmc_latitude data) else rmc_latitude data);
                     longitude = (if rmc_longitude_direction data = ''W''
                                  then fneg (rmc_longitude data) else rmc_longitude data);
                     current_fix = NavSatFix \<lparr>
                       fix_stamp := stamp,
                       fix_frame_id := frame_id,
                       fix_status := (if rmc_fix_valid data then STATUS_FIX else STATUS_NO_FIX),
                       fix_service := SERVICE_GPS,
                       fix_latitude := latitude,
                       fix_longitude := longitude,
                       fix_altitude := NaN,
                       fix_position_covariance_type := COVARIANCE_TYPE_UNKNOWN \<rparr>
                 in Fix current_fix #
                    (if \<not> (isnan (fst (rmc_utc_time data)) \<or> use_GNSS_time self)
                     then [TimeRef ((current_time_ref self current_time frame_id)
                             \<lparr> tr_time_ref :=
                                 Time (fst (rmc_utc_time data)) (snd (rmc_utc_time data)) \<rparr>)]
                     else [])
               else []);
            velocity =
              (if rmc_fix_valid data then
                 [Vel \<lparr> vel_stamp = current_time, vel_frame_id = frame_id,
                   vel_linear_x = fmul (rmc_speed data) (fsin (rmc_true_course data)),
                   vel_linear_y = fmul (rmc_speed data) (fcos (rmc_true_course data)) \<rparr>]
               else [])
        in (st, position @ velocity, None))"

text \<open>Lines 352 to 359.\<close>

definition handle_GST :: "fusion_state \<Rightarrow> gst_data \<Rightarrow> outcome" where
  "handle_GST st data =
     (st \<lparr> using_receiver_epe := True,
          lon_std_dev := gst_lon_std_dev data,
          lat_std_dev := gst_lat_std_dev data,
          alt_std_dev := gst_alt_std_dev data \<rparr>, [], None)"

section \<open>The auxiliary translators\<close>

text \<open>
  Each copies fields of the decoded sentence into a message of its own type and publishes
  it. The field lookups \<open>data['...']\<close> are applications of the lookup; the parser, by
  its contract, provides every field of the sentence type.
\<close>

text \<open>Lines 360 to 369.\<close>

definition handle_HDT :: "fusion_state \<Rightarrow> fields \<Rightarrow> rostime \<Rightarrow> string \<Rightarrow> outcome" where
  "handle_HDT st data current_time frame_id =
     (st,
      [Aux ''hdt''
       [(''header.stamp'', PTime current_time),
        (''header.frame_id'', PStr frame_id),
        (''heading'', data ''heading''),
        (''heading_relative'', data ''heading_relative'')]],
      None)"

text \<open>Lines 371 to 378.\<close>

definition handle_RSA :: "fusion_state \<Rightarrow> fields \<Rightarrow> rostime \<Rightarrow> string \<Rightarrow> outcome" where
  "handle_RSA st data current_time frame_id =
     (st,
      (if truthy (data ''rudder_angle'') then
      [Aux ''rudder_angle''
       [(''header.stamp'', PTime current_time),
        (''header.frame_id'', PStr frame_id),
        (''angles'', PList [data ''rudder_angle''])]]
      else []),
      None)"

text \<open>Lines 380 to 406.\<close>

definition handle_GSA :: "fusion_state \<Rightarrow> fields \<Rightarrow> rostime \<Rightarrow> string \<Rightarrow> outcome" where
  "handle_GSA st data current_time frame_id =
     (st,
      [Aux ''gsa''
       [(''mode'', data ''mode_one''),
        (''fix_type'', data ''fix_type_''),
        (''sats.sat1'', data ''prn_number_sat1''),
        (''sats.sat2'', data ''prn_number_sat2''),
        (''sats.sat3'', data ''prn_number_sat3''),
        (''sats.sat4'', data ''prn_number_sat4''),
        (''sats.sat5'', data ''prn_number_sat5''),
        (''sats.sat6'', data ''prn_number_sat6''),
        (''sats.sat7'', data ''prn_number_sat7''),
        (''sats.sat8'', data ''prn_number_sat8''),
        (''sats.sat9'', data ''prn_number_sat9''),
        (''sats.sat10'', data ''prn_number_sat10''),
        (''sats.sat11'', data ''prn_number_sat11''),
        (''sats.sat12'', data ''prn_number_sat12''),
        (''satfix.header.stamp'', PTime current_time),
        (''satfix.header.frame_id'', PStr frame_id),
        (''header.stamp'', PTime current_time),
        (''header.frame_id'', PStr frame_id),
        (''satfix.latitude'', data ''pdop''),
        (''satfix.longitude'', data ''hdop''),
        (''satfix.altitude'', data ''vdop'')]],
      None)"

text \<open>Lines 408 to 419.\<close>

definition handle_ZDA :: "fusion_state \<Rightarrow> fields \<Rightarrow> rostime \<Rightarrow> string \<Rightarrow> outcome" where
  "handle_ZDA st data current_time frame_id =
     (st,
      [Aux ''zda''
       [(''header.stamp'', PTime current_time),
        (''header.frame_id'', PStr frame_id),
        (''utc'', data ''utc''),
        (''day'', data ''day''),
        (''month'', data ''month''),
        (''year'', data ''year'')]],
      None)"

text \<open>Lines 421 to 432.\<close>

definition handle_RPM :: "fusion_state \<Rightarrow> fields \<Rightarrow> rostime \<Rightarrow> string \<Rightarrow> outcome" where
  "handle_RPM st data current_time frame_id =
     (st,
      [Aux ''rpm''
       [(''header.stamp'', PTime current_time),
        (''header.frame_id'', PStr frame_id),
        (''engine_status'', data ''engine_status''),
        (''rpm'', data ''rpm''),
        (''engine_hours'', data ''engine_hours''),
        (''propeller_pitch'', data ''propeller_pitch'')]],
      None)"

text \<open>Lines 434 to 445.\<close>

definition handle_HDG :: "fusion_state \<Rightarrow> fields \<Rightarrow> rostime \<Rightarrow> string \<Rightarrow> outcome" where
  "handle_HDG st data current_time frame_id =
     (st,
      [Aux ''hdg''
       [(''header.stamp'', PTime current_time),
        (''header.frame_id'', PStr frame_id),
        (''magnetic_sensor_heading'', data ''magnetic_sensor_heading''),
        (''magnetic_deviation'', data ''magnetic_deviation''),
        (''magnetic_deviation_direction'', data ''magnetic_deviation_direction''),
        (''magnetic_variation_degrees'', data ''magnetic_variation_degrees'')]],
      None)"

text \<open>Lines 447 to 455.\<close>

definition handle_ROT :: "fusion_state \<Rightarrow> fields \<Rightarrow> rostime \<Rightarrow> string \<Rightarrow> outcome" where
  "handle_ROT st data current_time frame_id =
     (st,
      [Aux ''rot''
       [(''header.stamp'', PTime current_time),
        (''header.frame_id'', PStr frame_id),
        (''rate_of_turn'', data ''rate_of_turn'')]],
      None)"

text \<open>Lines 457 to 491.\<close>

definition handle_GSV :: "fusion_state \<Rightarrow> fields \<Rightarrow> rostime \<Rightarrow> string \<Rightarrow> outcome" where
  "handle_GSV st data current_time frame_id =
     (st,
      [Aux ''gsv''
       [(''header.stamp'', PTime current_time),
        (''header.frame_id'', PStr frame_id),
        (''total_gsv_msgs_in_this_cycle'', data ''total_gsv_msgs_in_this_cycle''),
        (''message_number'', data ''message_number''),
        (''total_number_of_SVs_visible'', data ''total_number_of_SVs_visible''),
        (''sv1.header.stamp'', PTime current_time),
        (''sv1.header.frame_id'', PStr frame_id),
        (''sv1.prn_number'', data ''SV1_PRN_number''),
        (''sv1.elevation'', data ''SV1_elevation''),
        (''sv1.azimuth'', data ''SV1_azimuth''),
        (''sv1.snr'', data ''SV1_SNR''),
        (''sv2.header.stamp'', PTime current_time),
        (''sv2.header.frame_id'', PStr frame_id),
        (''sv2.prn_number'', data ''SV2_PRN_number''),
        (''sv2.elevation'', data ''SV2_elevation''),
        (''sv2.azimuth'', data ''SV2_azimuth''),
        (''sv2.snr'', data ''SV2_SNR''),
        (''sv3.header.stamp'', PTime current_time),
        (''sv3.header.frame_id'', PStr frame_id),
        (''sv3.prn_number'', data ''SV3_PRN_number''),
        (''sv3.elevation'', data ''SV3_elevation''),
        (''sv3.azimuth'', data ''SV3_azimuth''),
        (''sv3.snr'', data ''SV3_SNR''),
        (''sv4.header.stamp'', PTime current_time),
        (''sv4.header.frame_id'', PStr frame_id),
        (''sv4.prn_number'', data ''SV4_PRN_number''),
        (''sv4.elevation'', data ''SV4_elevation''),
        (''sv4.azimuth'', data ''SV4_azimuth''),
        (''sv4.snr'', data ''SV4_SNR'')]],
      None)"

text \<open>Lines 493 to 505.\<close>

definition handle_VTG :: "fusion_state \<Rightarrow> fields \<Rightarrow> rostime \<Rightarrow> string \<Rightarrow> outcome" where
  "handle_VTG st data current_time frame_id =
     (st,
      [Aux ''vtg''
       [(''header.stamp'', PTime current_time),
        (''header.frame_id'', PStr frame_id),
        (''track_made_good_degrees_true'', data ''track_made_good_degrees_true''),
        (''track_made_good_degrees_magnetic'', data ''track_made_good_degrees_magnetic''),
        (''speed_in_knots'', data ''speed_in_knots''),
        (''speed_in_kph'', data ''speed_in_kph''),
        (''mode_indicator'', data ''mode_indicator'')]],
      None)"

text \<open>Lines 507 to 524.\<close>

definition handle_VBW :: "fusion_state \<Rightarrow> fields \<Rightarrow> rostime \<Rightarrow> string \<Rightarrow> outcome" where
  "handle_VBW st data current_time frame_id =
     (st,
      [Aux ''vbw''
       [(''header.stamp'', PTime current_time),
        (''header.frame_id'', PStr frame_id),
        (''water_speed_longitudinal_component'', data ''water_speed_longitudinal_component''),
        (''water_speed_transverse_component'', data ''water_speed_transverse_component''),
        (''water_speed_status_data'', data ''water_speed_status_data''),
        (''over_ground_velocity_longitudinal_component'', data ''over_ground_velocity_longitudinal_component''),
        (''over_ground_velocity_transverse_component'', data ''over_ground_velocity_transverse_component''),
        (''over_ground_velocity_status_data'', data ''over_ground_velocity_status_data''),
        (''stern_transverse_water_speed'', data ''stern_transverse_water_speed''),
        (''stern_transverse_water_speed_status_data'', data ''stern_transverse_water_speed_status_data''),
        (''stern_transverse_ground_speed'', data ''stern_transverse_ground_speed''),
        (''stern_transverse_ground_speed_status_data'', data ''stern_transverse_ground_speed_status_data'')]],
      None)"

text \<open>Lines 526 to 544.\<close>

definition handle_GLL :: "fusion_state \<Rightarrow> fields \<Rightarrow> rostime \<Rightarrow> string \<Rightarrow> outcome" where
  "handle_GLL st data current_time frame_id =
     (st,
      [Aux ''gll''
       [(''header.stamp'', PTime current_time),
        (''header.frame_id'', PStr frame_id),
        (''position.latitude'', data ''latitude''),
        (''position.longitude'', data ''longitude''),
        (''latitude_direction'', data ''latitude_direction''),
        (''longitude_direction'', data ''longitude_direction''),
        (''position.header.stamp'', PTime current_time),
        (''position.header.frame_id'', PStr frame_id),
        (''utc.utc'', data ''utc''),
        (''utc.header.stamp'', PTime current_time),
        (''utc.header.frame_id'', PStr frame_id),
        (''data_status'', data ''data_status''),
        (''mode_indicator'', data ''mode_indicator'')]],
      None)"

text \<open>Lines 546 to 559.\<close>

definition handle_VDM :: "fusion_state \<Rightarrow> fields \<Rightarrow> rostime \<Rightarrow> string \<Rightarrow> outcome" where
  "handle_VDM st data current_time frame_id =
     (st,
      [Aux ''vdm''
       [(''header.stamp'', PTime current_time),
        (''header.frame_id'', PStr frame_id),
        (''fragments_in_currently_accumulating_message'', data ''fragments_in_currently_accumulating_message''),
        (''fragment_number'', data ''fragment_number''),
        (''sequential_message_id'', data ''sequential_message_id''),
        (''radio_channel_code'', data ''radio_channel_code''),
        (''data_payload'', data ''data_payload''),
        (''fill_bits'', data ''fill_bits'')]],
      None)"

text \<open>Lines 561 to 574.\<close>

definition handle_VDO :: "fusion_state \<Rightarrow> fields \<Rightarrow> rostime \<Rightarrow> string \<Rightarrow> outcome" where
  "handle_VDO st data current_time frame_id =
     (st,
      [Aux ''vdo''
       [(''header.stamp'', PTime current_time),
        (''header.frame_id'', PStr frame_id),
        (''fragments_in_currently_accumulating_message'', data ''fragments_in_currently_accumulating_message''),
        (''fragment_number'', data ''fragment_number''),
        (''sequential_message_id'', data ''sequential_message_id''),
        (''radio_channel_code'', data ''radio_channel_code''),
        (''data_payload'', data ''data_payload''),
        (''fill_bits'', data ''fill_bits'')]],
      None)"

section \<open>\<open>add_sentence\<close>\<close>

text \<open>
  The chain of tests on the decoded sentence, in source order. A GGA sentence while
  \<open>use_RMC\<close> is on matches no branch and reaches the final \<open>else\<close>, as does any tag
  the chain does not name.
\<close>

definition dispatch :: "config \<Rightarrow> fusion_state \<Rightarrow> parsed_sentence \<Rightarrow> rostime \<Rightarrow> string \<Rightarrow> outcome" where
  "dispatch self st parsed current_time frame_id =
     (case parsed of
        GGA data \<Rightarrow>
          if \<not> use_RMC self then handle_GGA self st data current_time frame_id
          else (st, [], Some False)
      | RMC data \<Rightarrow> handle_RMC self st data current_time frame_id
      | GST data \<Rightarrow> handle_GST st data
      | HDT data \<Rightarrow> handle_HDT st data current_time frame_id
      | RSA data \<Rightarrow> handle_RSA st data current_time frame_id
      | GSA data \<Rightarrow> handle_GSA st data current_time frame_id
      | ZDA data \<Rightarrow> handle_ZDA st data current_time frame_id
      | RPM data \<Rightarrow> handle_RPM st data current_time frame_id
      | HDG data \<Rightarrow> handle_HDG st data current_time frame_id
      | ROT data \<Rightarrow> handle_ROT st data current_time frame_id
      | GSV data \<Rightarrow> handle_GSV st data current_time frame_id
      | VTG data \<Rightarrow> handle_VTG st data current_time frame_id
      | VBW data \<Rightarrow> handle_VBW st data current_time frame_id
      | GLL data \<Rightarrow> handle_GLL st data current_time frame_id
      | VDM data \<Rightarrow> handle_VDM st data current_time frame_id
      | VDO data \<Rightarrow> handle_VDO st data current_time frame_id
      | Other tag data \<Rightarrow> (st, [], Some False))"

text \<open>
  The whole method. The result is the driver state after the call, every message
  published during the call in order, and the value returned. The raw echo is published
  before the checksum is looked at. \<open>if not parsed_sentence\<close> is the parser reporting
  failure: \<open>None\<close> here. \<open>current_time\<close> is the caller's timestamp when it is given and
  truthy, and the next clock reading otherwise.
\<close>

definition current_time_of :: "(nat \<Rightarrow> rostime) \<Rightarrow> nat \<Rightarrow> rostime option \<Rightarrow> rostime" where
  "current_time_of get_rostime k timestamp =
     (case timestamp of
        None \<Rightarrow> get_rostime k
      | Some t \<Rightarrow> if time_nonzero t then t else get_rostime k)"

definition add_sentence ::
  "collaborators \<Rightarrow> (nat \<Rightarrow> rostime) \<Rightarrow> config \<Rightarrow> fusion_state \<Rightarrow>
     string \<Rightarrow> string \<Rightarrow> rostime option \<Rightarrow> outcome" where
  "add_sentence env get_rostime self st nmea_string frame_id timestamp =
     (let echo = raw_echo get_rostime nmea_string in
      if \<not> check_nmea_checksum env nmea_string then (st, echo, Some False)
      else
        case parse_nmea_sentence env nmea_string of
          None \<Rightarrow> (st, echo, Some False)
        | Some parsed_sentence \<Rightarrow>
            let current_time = current_time_of get_rostime (length echo) timestamp;
                (st', published, returned) =
                  dispatch self st parsed_sentence current_time frame_id
            in (st', echo @ published, returned))"

text \<open>A sequence of calls on one driver object: each call has its own clock readings,
  sentence, frame id and optional timestamp; the state is threaded through.\<close>

type_synonym call = "(nat \<Rightarrow> rostime) \<times> string \<times> string \<times> rostime option"

fun run :: "collaborators \<Rightarrow> config \<Rightarrow> fusion_state \<Rightarrow> call list \<Rightarrow> fusion_state" where
  "run env self st [] = st"
| "run env self st ((get_rostime, nmea_string, frame_id, timestamp) # calls) =
     run env self (fst (add_sentence env get_rostime self st nmea_string frame_id timestamp)) calls"

section \<open>Vocabulary for the properties\<close>

fun is_echo :: "report \<Rightarrow> bool" where
  "is_echo (NmeaSentence _) = True"
| "is_echo _ = False"

fun fix_reports :: "report list \<Rightarrow> nav_sat_fix list" where
  "fix_reports [] = []"
| "fix_reports (Fix f # rs) = f # fix_reports rs"
| "fix_reports (_ # rs) = fix_reports rs"

fun vel_reports :: "report list \<Rightarrow> twist_stamped list" where
  "vel_reports [] = []"
| "vel_reports (Vel v # rs) = v # vel_reports rs"
| "vel_reports (_ # rs) = vel_reports rs"

text \<open>The time value a position-bearing sentence reports (\<open>data['utc_time'][0]\<close>).\<close>

fun reported_time :: "parsed_sentence \<Rightarrow> pyfloat option" where
  "reported_time (GGA data) = Some (fst (gga_utc_time data))"
| "reported_time (RMC data) = Some (fst (rmc_utc_time data))"
| "reported_time _ = None"

definition state_of :: "outcome \<Rightarrow> fusion_state" where
  "state_of out = fst out"

definition published :: "outcome \<Rightarrow> report list" where
  "published out = fst (snd out)"

definition returned :: "outcome \<Rightarrow> bool option" where
  "returned out = snd (snd out)"

text \<open>The truth value a caller's \<open>if driver.add_sentence(...)\<close> sees.\<close>

fun py_bool :: "bool option \<Rightarrow> bool" where
  "py_bool None = False"
| "py_bool (Some b) = b"

definition std_devs :: "fusion_state \<Rightarrow> pyfloat \<times> pyfloat \<times> pyfloat" where
  "std_devs st = (lon_std_dev st, lat_std_dev st, alt_std_dev st)"

definition std_devs_nonneg :: "fusion_state \<Rightarrow> bool" where
  "std_devs_nonneg st =
     (\<not> is_negative (lon_std_dev st) \<and> \<not> is_negative (lat_std_dev st) \<and>
      \<not> is_negative (alt_std_dev st))"

definition defaults_nonneg :: "config \<Rightarrow> bool" where
  "defaults_nonneg self =
     (\<not> is_negative (default_epe_quality0 self) \<and> \<not> is_negative (default_epe_quality1 self) \<and>
      \<not> is_negative (default_epe_quality2 self) \<and> \<not> is_negative (default_epe_quality4 self) \<and>
      \<not> is_negative (default_epe_quality5 self) \<and> \<not> is_negative (default_epe_quality9 self))"

definition gst_nonneg :: "gst_data \<Rightarrow> bool" where
  "gst_nonneg data =
     (\<not> is_negative (gst_lon_std_dev data) \<and> \<not> is_negative (gst_lat_std_dev data) \<and>
      \<not> is_negative (gst_alt_std_dev data))"

text \<open>No sentence of the sequence decodes to a GST sentence with a negative value.\<close>

definition gst_values_nonneg :: "collaborators \<Rightarrow> call list \<Rightarrow> bool" where
  "gst_values_nonneg env calls =
     list_all (\<lambda>(get_rostime, nmea_string, frame_id, timestamp).
                 case parse_nmea_sentence env nmea_string of
                   Some (GST data) \<Rightarrow> gst_nonneg data
                 | _ \<Rightarrow> True) calls"

text \<open>The default error \<open>add_sentence\<close> uses for a fix-quality code.\<close>

definition default_epe_of :: "config \<Rightarrow> int \<Rightarrow> pyfloat" where
  "default_epe_of self fix_type =
     fst (the (map_of (gps_qualities self) (effective_fix_type self fix_type)))"

text \<open>Whether the GNSS-time check (lines 246 to 249 and 305 to 308) rejects a sentence.\<close>

fun unusable_time :: "config \<Rightarrow> parsed_sentence \<Rightarrow> bool" where
  "unusable_time self (GGA data) =
     (\<not> use_RMC self \<and> use_GNSS_time self \<and> isnan (fst (gga_utc_time data)))"
| "unusable_time self (RMC data) = (use_GNSS_time self \<and> isnan (fst (rmc_utc_time data)))"
| "unusable_time self _ = False"

text \<open>Whether some branch of the chain takes the sentence.\<close>

fun recognized :: "config \<Rightarrow> parsed_sentence \<Rightarrow> bool" where
  "recognized self (GGA data) = (\<not> use_RMC self)"
| "recognized self (Other tag data) = False"
| "recognized self _ = True"

section \<open>A concrete setting\<close>

text \<open>
  Modelled from the spec: \<open>check_nmea_checksum\<close> of
  \<open>libnmea_navsat_driver.checksum_utils\<close>, which is not part of the source at hand.
  The spec: it computes the exclusive-or of all byte values between the leading \<open>$\<close> or
  \<open>!\<close> and the \<open>*\<close> checksum delimiter, formats it as two hex digits, and compares
  case-insensitively against the sentence's trailing checksum field; a sentence with no
  \<open>*\<close> delimiter, or malformed hex, fails validation. It is used only to instantiate
  the checksum parameter at concrete sentences.
\<close>

definition hex_digit :: "int \<Rightarrow> char" where
  "hex_digit n = ''0123456789ABCDEF'' ! nat (n mod 16)"

definition hex2 :: "int \<Rightarrow> string" where
  "hex2 n = [hex_digit (n div 16), hex_digit n]"

definition upper :: "char \<Rightarrow> char" where
  "upper c =
     (let n = (of_char c :: nat) in if 97 \<le> n \<and> n \<le> 122 then char_of (n - 32) else c)"

definition xor_bytes :: "string \<Rightarrow> int" where
  "xor_bytes body = fold (\<lambda>c checksum. checksum XOR of_char c) body 0"

definition spec_check_nmea_checksum :: "string \<Rightarrow> bool" where
  "spec_check_nmea_checksum nmea_sentence =
     (if CHR ''*'' \<notin> set nmea_sentence then False
      else
        let body = takeWhile (\<lambda>c. c \<noteq> CHR ''*'') nmea_sentence;
            transmitted = tl (dropWhile (\<lambda>c. c \<noteq> CHR ''*'') nmea_sentence)
        in hex2 (xor_bytes (tl body)) = map upper transmitted)"

text \<open>The parameters \<open>__init__\<close> falls back to when none is configured.\<close>

definition default_config :: config where
  "default_config = \<lparr> use_GNSS_time = False, time_ref_source = None, use_RMC = False,
     default_epe_quality0 = Finite 1000000, default_epe_quality1 = Finite 4,
     default_epe_quality2 = Finite 0.1, default_epe_quality4 = Finite 0.02,
     default_epe_quality5 = Finite 4, default_epe_quality9 = Finite 3 \<rparr>"

definition demo_clock :: "nat \<Rightarrow> rostime" where
  "demo_clock k = Time (Finite 1700000000) (int k)"

text \<open>
  Sample sentences with the fields a parser decodes from them: degrees and minutes as
  decimal degrees, knots as metres per second, degrees of course as radians, an empty
  numeric field as not-a-number.
\<close>

definition gga_sentence :: string where
  "gga_sentence = ''$GPGGA,123519,4807.038,N,01131.000,E,1,08,0.9,545.4,M,46.9,M,,*47''"

definition gga_decoded :: gga_data where
  "gga_decoded = \<lparr> gga_utc_time = (Finite 764426119, 0), gga_fix_type = 1,
     gga_latitude = Finite 48.1173, gga_latitude_direction = ''N'',
     gga_longitude = Finite (11 + 31 / 60), gga_longitude_direction = ''E'',
     gga_altitude = Finite 545.4, gga_mean_sea_level = Finite 46.9, gga_hdop = Finite 0.9 \<rparr>"

definition gga_bad_checksum :: string where
  "gga_bad_checksum = ''$GPGGA,123519,4807.038,N,01131.000,E,1,08,0.9,545.4,M,46.9,M,,*00''"

definition gga_south_west :: string where
  "gga_south_west = ''$GPGGA,123519,4807.038,S,01131.000,W,1,08,0.9,545.4,M,46.9,M,,*48''"

definition gga_unknown_quality :: string where
  "gga_unknown_quality = ''$GPGGA,123519,4807.038,N,01131.000,E,3,08,0.9,545.4,M,46.9,M,,*45''"

definition gga_no_time :: string where
  "gga_no_time = ''$GPGGA,,4807.038,N,01131.000,E,1,08,0.9,545.4,M,46.9,M,,*4A''"

definition gst_sentence :: string where
  "gst_sentence = ''$GPGST,172814.0,0.006,0.023,0.020,273.6,0.023,0.020,0.031*6A''"

definition gst_decoded :: gst_data where
  "gst_decoded = \<lparr> gst_lon_std_dev = Finite 0.020, gst_lat_std_dev = Finite 0.023,
     gst_alt_std_dev = Finite 0.031 \<rparr>"

definition gst_negative :: string where
  "gst_negative = ''$GPGST,172814.0,0.006,0.023,0.020,273.6,0.023,-0.5,0.031*40''"

definition gst_partial :: string where
  "gst_partial = ''$GPGST,172814.0,,,,,0.023,,0.031*43''"

definition rmc_sentence :: string where
  "rmc_sentence = ''$GPRMC,123519,A,4807.038,N,01131.000,E,022.4,084.4,230394,003.1,W*6A''"

definition rmc_decoded :: rmc_data where
  "rmc_decoded = \<lparr> rmc_utc_time = (Finite 764426119, 0), rmc_fix_valid = True,
     rmc_latitude = Finite 48.1173, rmc_latitude_direction = ''N'',
     rmc_longitude = Finite (11 + 31 / 60), rmc_longitude_direction = ''E'',
     rmc_speed = Finite (22.4 * 0.514444444444), rmc_true_course = Finite (84.4 * pi / 180) \<rparr>"

definition rmc_south_west :: string where
  "rmc_south_west = ''$GPRMC,123519,A,4807.038,S,01131.000,W,022.4,084.4,230394,003.1,W*65''"

definition rmc_invalid :: string where
  "rmc_invalid = ''$GPRMC,123519,V,4807.038,N,01131.000,E,022.4,084.4,230394,003.1,W*7D''"

definition rmc_no_time :: string where
  "rmc_no_time = ''$GPRMC,,A,4807.038,N,01131.000,E,022.4,084.4,230394,003.1,W*67''"

definition hdt_sentence :: string where
  "hdt_sentence = ''$GPHDT,274.07,T*03''"

definition hdt_decoded :: fields where
  "hdt_decoded = (\<lambda>k. if k = ''heading'' then PFloat (Finite 274.07)
                      else if k = ''heading_relative'' then PStr ''T'' else PNone)"

definition sample_parser :: "string \<Rightarrow> parsed_sentence option" where
  "sample_parser nmea_sentence =
     (if nmea_sentence = gga_sentence then Some (GGA gga_decoded)
      else if nmea_sentence = gga_south_west then
        Some (GGA (gga_decoded \<lparr> gga_latitude_direction := ''S'',
                                   gga_longitude_direction := ''W'' \<rparr>))
      else if nmea_sentence = gga_unknown_quality then
        Some (GGA (gga_decoded \<lparr> gga_fix_type := 3 \<rparr>))
      else if nmea_sentence = gga_no_time then
        Some (GGA (gga_decoded \<lparr> gga_utc_time := (NaN, 0) \<rparr>))
      else if nmea_sentence = gst_sentence then Some (GST gst_decoded)
      else if nmea_sentence = gst_negative then
        Some (GST (gst_decoded \<lparr> gst_lon_std_dev := Finite (- 0.5) \<rparr>))
      else if nmea_sentence = gst_partial then
        Some (GST \<lparr> gst_lon_std_dev = NaN, gst_lat_std_dev = Finite 0.023,
                     gst_alt_std_dev = Finite 0.031 \<rparr>)
      else if nmea_sentence = rmc_sentence then Some (RMC rmc_decoded)
      else if nmea_sentence = rmc_south_west then
        Some (RMC (rmc_decoded \<lparr> rmc_latitude_direction := ''S'',
                                   rmc_longitude_direction := ''W'' \<rparr>))
      else if nmea_sentence = rmc_invalid then
        Some (RMC (rmc_decoded \<lparr> rmc_fix_valid := False \<rparr>))
      else if nmea_sentence = rmc_no_time then
        Some (RMC (rmc_decoded \<lparr> rmc_utc_time := (NaN, 0) \<rparr>))
      else if nmea_sentence = hdt_sentence then Some (HDT hdt_decoded)
      else None)"

definition sample_env :: collaborators where
  "sample_env = \<lparr> check_nmea_checksum = spec_check_nmea_checksum,
     parse_nmea_sentence = sample_parser \<rparr>"

text \<open>The same setting with a parser that decodes the code of \<open>gga_unknown_quality\<close>
  as \<open>-1\<close>.\<close>

definition sample_env_minus_one :: collaborators where
  "sample_env_minus_one = \<lparr> check_nmea_checksum = spec_check_nmea_checksum,
     parse_nmea_sentence =
       (\<lambda>nmea_sentence.
          if nmea_sentence = gga_unknown_quality
          then Some (GGA (gga_decoded \<lparr> gga_fix_type := - 1 \<rparr>))
          else sample_parser nmea_sentence) \<rparr>"

section \<open>Facts about the model\<close>

lemmas aux_handler_defs =
  handle_HDT_def handle_RSA_def handle_GSA_def handle_ZDA_def handle_RPM_def handle_HDG_def
  handle_ROT_def handle_GSV_def handle_VTG_def handle_VBW_def handle_GLL_def handle_VDM_def
  handle_VDO_def

lemmas outcome_defs = state_of_def published_def returned_def

text \<open>The lookup after the fallback to \<open>-1\<close> never misses: \<open>the\<close> in \<open>handle_GGA\<close> is
  always applied to \<open>Some\<close>.\<close>

lemma fallback_key_present:
  "map_of (gps_qualities self) (effective_fix_type self c) \<noteq> None"
  by (simp add: effective_fix_type_def gps_qualities_def)

lemma table_keys: "fst ` set (gps_qualities self) = {- 1, 0, 1, 2, 4, 5, 9}"
  by (auto simp: gps_qualities_def)

lemma add_sentence_cases:
  "add_sentence env clk self st s fr ts =
     (if \<not> check_nmea_checksum env s then (st, raw_echo clk s, Some False)
      else case parse_nmea_sentence env s of
        None \<Rightarrow> (st, raw_echo clk s, Some False)
      | Some p \<Rightarrow>
         (state_of (dispatch self st p (current_time_of clk (length (raw_echo clk s)) ts) fr),
          raw_echo clk s @
            published (dispatch self st p (current_time_of clk (length (raw_echo clk s)) ts) fr),
          returned (dispatch self st p (current_time_of clk (length (raw_echo clk s)) ts) fr)))"
  by (simp add: add_sentence_def outcome_defs Let_def split: prod.splits option.splits)

lemma add_sentence_parsed:
  assumes "check_nmea_checksum env s" and "parse_nmea_sentence env s = Some p"
  shows "state_of (add_sentence env clk self st s fr ts) =
           state_of (dispatch self st p (current_time_of clk (length (raw_echo clk s)) ts) fr)"
    and "published (add_sentence env clk self st s fr ts) =
           raw_echo clk s @
             published (dispatch self st p (current_time_of clk (length (raw_echo clk s)) ts) fr)"
    and "returned (add_sentence env clk self st s fr ts) =
           returned (dispatch self st p (current_time_of clk (length (raw_echo clk s)) ts) fr)"
  using assms by (simp_all add: add_sentence_cases) (simp_all add: outcome_defs)

lemma add_sentence_dropped:
  assumes "\<not> check_nmea_checksum env s \<or> parse_nmea_sentence env s = None"
  shows "add_sentence env clk self st s fr ts = (st, raw_echo clk s, Some False)"
  using assms by (auto simp: add_sentence_cases)

lemma raw_echo_is_echo: "r \<in> set (raw_echo clk s) \<Longrightarrow> is_echo r"
  by (auto simp: raw_echo_def)

lemma length_raw_echo:
  "length (raw_echo clk s) = length (filter echo_wanted (split_str backslash s))"
  by (simp add: raw_echo_def)

lemma fix_reports_append: "fix_reports (xs @ ys) = fix_reports xs @ fix_reports ys"
  by (induction xs rule: fix_reports.induct) simp_all

lemma vel_reports_append: "vel_reports (xs @ ys) = vel_reports xs @ vel_reports ys"
  by (induction xs rule: vel_reports.induct) simp_all

lemma fix_reports_echo: "\<forall>r \<in> set rs. is_echo r \<Longrightarrow> fix_reports rs = []"
  by (induction rs rule: fix_reports.induct) simp_all

lemma vel_reports_echo: "\<forall>r \<in> set rs. is_echo r \<Longrightarrow> vel_reports rs = []"
  by (induction rs rule: vel_reports.induct) simp_all

lemma fix_reports_raw_echo: "fix_reports (raw_echo clk s) = []"
  by (rule fix_reports_echo) (simp add: raw_echo_is_echo)

lemma vel_reports_raw_echo: "vel_reports (raw_echo clk s) = []"
  by (rule vel_reports_echo) (simp add: raw_echo_is_echo)

lemma dispatch_returned:
  "returned (dispatch self st p ct fr) =
     (if recognized self p \<and> \<not> unusable_time self p then None else Some False)"
  by (cases p)
     (simp_all add: dispatch_def returned_def handle_GGA_def handle_RMC_def handle_GST_def
        aux_handler_defs Let_def)

lemma dispatch_rejected:
  "unusable_time self p \<or> \<not> recognized self p \<Longrightarrow> dispatch self st p ct fr = (st, [], Some False)"
  by (cases p) (auto simp: dispatch_def handle_GGA_def handle_RMC_def)

subsection \<open>The GGA branch\<close>

lemma outcome_simps:
  "state_of (st, rs, r) = st"
  "published (st, rs, r) = rs"
  "returned (st, rs, r) = r"
  by (simp_all add: outcome_defs)

lemma dispatch_GGA:
  "\<not> use_RMC self \<Longrightarrow> dispatch self st (GGA d) ct fr = handle_GGA self st d ct fr"
  by (simp add: dispatch_def)

lemma handle_GGA_std_devs:
  assumes "\<not> (use_GNSS_time self \<and> isnan (fst (gga_utc_time d)))"
  shows "lon_std_dev (state_of (handle_GGA self st d ct fr)) =
           (if \<not> using_receiver_epe st \<or> isnan (lon_std_dev st)
            then default_epe_of self (gga_fix_type d) else lon_std_dev st)"
    and "lat_std_dev (state_of (handle_GGA self st d ct fr)) =
           (if \<not> using_receiver_epe st \<or> isnan (lat_std_dev st)
            then default_epe_of self (gga_fix_type d) else lat_std_dev st)"
    and "alt_std_dev (state_of (handle_GGA self st d ct fr)) =
           (if \<not> using_receiver_epe st \<or> isnan (alt_std_dev st)
            then fmul (default_epe_of self (gga_fix_type d)) (Finite 2) else alt_std_dev st)"
    and "using_receiver_epe (state_of (handle_GGA self st d ct fr)) = using_receiver_epe st"
    and "valid_fix (state_of (handle_GGA self st d ct fr)) = (effective_fix_type self (gga_fix_type d) > 0)"
  using assms
  by (cases "use_GNSS_time self"; simp add: handle_GGA_def state_of_def default_epe_of_def Let_def)+

lemma handle_GGA_fix:
  assumes "\<not> (use_GNSS_time self \<and> isnan (fst (gga_utc_time d)))"
  shows "\<exists>f. fix_reports (published (handle_GGA self st d ct fr)) = [f] \<and>
     fix_latitude f = (if gga_latitude_direction d = ''S'' then fneg (gga_latitude d) else gga_latitude d) \<and>
     fix_longitude f = (if gga_longitude_direction d = ''W'' then fneg (gga_longitude d) else gga_longitude d) \<and>
     fix_altitude f = fadd (gga_altitude d) (gga_mean_sea_level d) \<and>
     fix_status f = fst (snd (the (map_of (gps_qualities self) (effective_fix_type self (gga_fix_type d))))) \<and>
     fix_position_covariance_type f = snd (snd (the (map_of (gps_qualities self) (effective_fix_type self (gga_fix_type d))))) \<and>
     fix_position_covariance f =
       [fsquare (fmul (gga_hdop d) (lon_std_dev (state_of (handle_GGA self st d ct fr)))), Finite 0, Finite 0,
        Finite 0, fsquare (fmul (gga_hdop d) (lat_std_dev (state_of (handle_GGA self st d ct fr)))), Finite 0,
        Finite 0, Finite 0,
        fsquare (fmul (fmul (Finite 2) (gga_hdop d)) (alt_std_dev (state_of (handle_GGA self st d ct fr))))]"
  using assms
  by (cases "use_GNSS_time self")
     (simp_all add: handle_GGA_def state_of_def published_def Let_def NavSatFix_def numeral_eq_Suc)

lemma handle_GGA_rejected:
  "use_GNSS_time self \<and> isnan (fst (gga_utc_time d)) \<Longrightarrow>
     handle_GGA self st d ct fr = (st, [], Some False)"
  by (simp add: handle_GGA_def)

lemma default_epe_of_table:
  "default_epe_of self (- 1) = default_epe_quality0 self"
  "default_epe_of self 0 = default_epe_quality0 self"
  "default_epe_of self 1 = default_epe_quality1 self"
  "default_epe_of self 2 = default_epe_quality2 self"
  "default_epe_of self 4 = default_epe_quality4 self"
  "default_epe_of self 5 = default_epe_quality5 self"
  "default_epe_of self 9 = default_epe_quality9 self"
  "c \<notin> fst ` set (gps_qualities self) \<Longrightarrow> default_epe_of self c = default_epe_quality0 self"
  by (simp_all add: default_epe_of_def effective_fix_type_def gps_qualities_def)

lemma returned_add_sentence:
  "returned (add_sentence env clk self st s fr ts) =
     (if \<not> check_nmea_checksum env s then Some False
      else case parse_nmea_sentence env s of
        None \<Rightarrow> Some False
      | Some p \<Rightarrow> if recognized self p \<and> \<not> unusable_time self p then None else Some False)"
  by (simp add: add_sentence_cases returned_def split: option.splits)
     (simp add: dispatch_returned [unfolded returned_def])

subsection \<open>The RMC branch and the published messages\<close>

lemma handle_RMC_rejected:
  "use_GNSS_time self \<and> isnan (fst (rmc_utc_time d)) \<Longrightarrow>
     handle_RMC self st d ct fr = (st, [], Some False)"
  by (simp add: handle_RMC_def)

lemma handle_RMC_state: "state_of (handle_RMC self st d ct fr) = st"
  by (simp add: handle_RMC_def state_of_def Let_def)

lemma handle_RMC_fix:
  assumes "\<not> (use_GNSS_time self \<and> isnan (fst (rmc_utc_time d)))"
  shows "fix_reports (published (handle_RMC self st d ct fr)) =
     (if use_RMC self then
        [NavSatFix \<lparr>
           fix_stamp := (if use_GNSS_time self
                         then Time (fst (rmc_utc_time d)) (snd (rmc_utc_time d)) else ct),
           fix_frame_id := fr,
           fix_status := (if rmc_fix_valid d then STATUS_FIX else STATUS_NO_FIX),
           fix_service := SERVICE_GPS,
           fix_latitude := (if rmc_latitude_direction d = ''S''
                            then fneg (rmc_latitude d) else rmc_latitude d),
           fix_longitude := (if rmc_longitude_direction d = ''W''
                             then fneg (rmc_longitude d) else rmc_longitude d),
           fix_altitude := NaN,
           fix_position_covariance_type := COVARIANCE_TYPE_UNKNOWN \<rparr>]
      else [])"
  using assms
  by (cases "use_GNSS_time self")
     (simp_all add: handle_RMC_def published_def Let_def fix_reports_append)

lemma handle_RMC_vel:
  assumes "\<not> (use_GNSS_time self \<and> isnan (fst (rmc_utc_time d)))"
  shows "vel_reports (published (handle_RMC self st d ct fr)) =
     (if rmc_fix_valid d then
        [\<lparr> vel_stamp = ct, vel_frame_id = fr,
           vel_linear_x = fmul (rmc_speed d) (fsin (rmc_true_course d)),
           vel_linear_y = fmul (rmc_speed d) (fcos (rmc_true_course d)) \<rparr>]
      else [])"
  using assms
  by (cases "use_GNSS_time self")
     (simp_all add: handle_RMC_def published_def Let_def vel_reports_append)

text \<open>Which sentences can lead to a \<open>NavSatFix\<close>, and which to a \<open>TwistStamped\<close>.\<close>

lemma fix_reports_dispatch:
  "fix_reports (published (dispatch self st p ct fr)) =
     (case p of
        GGA d \<Rightarrow> if use_RMC self then [] else fix_reports (published (handle_GGA self st d ct fr))
      | RMC d \<Rightarrow> fix_reports (published (handle_RMC self st d ct fr))
      | _ \<Rightarrow> [])"
  by (cases p) (simp_all add: dispatch_def published_def handle_GST_def aux_handler_defs)

lemma vel_reports_handle_GGA: "vel_reports (published (handle_GGA self st d ct fr)) = []"
  by (simp add: handle_GGA_def published_def Let_def)

lemma vel_reports_dispatch:
  "vel_reports (published (dispatch self st p ct fr)) =
     (case p of
        RMC d \<Rightarrow> vel_reports (published (handle_RMC self st d ct fr))
      | _ \<Rightarrow> [])"
proof (cases p)
  case (GGA d)
  then show ?thesis
    using vel_reports_handle_GGA [of self st d ct fr] by (simp add: dispatch_def published_def)
qed (simp_all add: dispatch_def published_def handle_GST_def aux_handler_defs)

lemma fix_reports_add_sentence:
  "fix_reports (published (add_sentence env clk self st s fr ts)) =
     (if \<not> check_nmea_checksum env s then []
      else case parse_nmea_sentence env s of
        None \<Rightarrow> []
      | Some p \<Rightarrow>
          fix_reports (published
            (dispatch self st p (current_time_of clk (length (raw_echo clk s)) ts) fr)))"
  by (simp add: add_sentence_cases published_def fix_reports_append fix_reports_raw_echo
      split: option.splits)

lemma vel_reports_add_sentence:
  "vel_reports (published (add_sentence env clk self st s fr ts)) =
     (if \<not> check_nmea_checksum env s then []
      else case parse_nmea_sentence env s of
        None \<Rightarrow> []
      | Some p \<Rightarrow>
          vel_reports (published
            (dispatch self st p (current_time_of clk (length (raw_echo clk s)) ts) fr)))"
  by (simp add: add_sentence_cases published_def vel_reports_append vel_reports_raw_echo
      split: option.splits)

lemma fneg_positive: "0 < m \<Longrightarrow> is_negative (fneg (Finite m))"
  by simp

subsection \<open>The standard deviations\<close>

lemma state_of_dispatch:
  "state_of (dispatch self st p ct fr) =
     (case p of
        GGA d \<Rightarrow> if use_RMC self then st else state_of (handle_GGA self st d ct fr)
      | GST d \<Rightarrow> state_of (handle_GST st d)
      | _ \<Rightarrow> st)"
  by (cases p)
     (simp_all add: dispatch_def outcome_simps handle_RMC_state aux_handler_defs)

lemma state_of_add_sentence:
  "state_of (add_sentence env clk self st s fr ts) =
     (if \<not> check_nmea_checksum env s then st
      else case parse_nmea_sentence env s of
        None \<Rightarrow> st
      | Some p \<Rightarrow>
          state_of (dispatch self st p (current_time_of clk (length (raw_echo clk s)) ts) fr))"
  by (simp add: add_sentence_cases outcome_simps split: option.splits)

lemma handle_GGA_std_devs_total:
  "lon_std_dev (state_of (handle_GGA self st d ct fr)) =
     (if \<not> (use_GNSS_time self \<and> isnan (fst (gga_utc_time d))) \<and>
         (\<not> using_receiver_epe st \<or> isnan (lon_std_dev st))
      then default_epe_of self (gga_fix_type d) else lon_std_dev st)"
  "lat_std_dev (state_of (handle_GGA self st d ct fr)) =
     (if \<not> (use_GNSS_time self \<and> isnan (fst (gga_utc_time d))) \<and>
         (\<not> using_receiver_epe st \<or> isnan (lat_std_dev st))
      then default_epe_of self (gga_fix_type d) else lat_std_dev st)"
  "alt_std_dev (state_of (handle_GGA self st d ct fr)) =
     (if \<not> (use_GNSS_time self \<and> isnan (fst (gga_utc_time d))) \<and>
         (\<not> using_receiver_epe st \<or> isnan (alt_std_dev st))
      then fmul (default_epe_of self (gga_fix_type d)) (Finite 2) else alt_std_dev st)"
proof -
  show "lon_std_dev (state_of (handle_GGA self st d ct fr)) =
     (if \<not> (use_GNSS_time self \<and> isnan (fst (gga_utc_time d))) \<and>
         (\<not> using_receiver_epe st \<or> isnan (lon_std_dev st))
      then default_epe_of self (gga_fix_type d) else lon_std_dev st)"
    using handle_GGA_std_devs(1) [of self d st ct fr] handle_GGA_rejected [of self d st ct fr]
    by (cases "use_GNSS_time self \<and> isnan (fst (gga_utc_time d))") (simp_all add: outcome_simps)
  show "lat_std_dev (state_of (handle_GGA self st d ct fr)) =
     (if \<not> (use_GNSS_time self \<and> isnan (fst (gga_utc_time d))) \<and>
         (\<not> using_receiver_epe st \<or> isnan (lat_std_dev st))
      then default_epe_of self (gga_fix_type d) else lat_std_dev st)"
    using handle_GGA_std_devs(2) [of self d st ct fr] handle_GGA_rejected [of self d st ct fr]
    by (cases "use_GNSS_time self \<and> isnan (fst (gga_utc_time d))") (simp_all add: outcome_simps)
  show "alt_std_dev (state_of (handle_GGA self st d ct fr)) =
     (if \<not> (use_GNSS_time self \<and> isnan (fst (gga_utc_time d))) \<and>
         (\<not> using_receiver_epe st \<or> isnan (alt_std_dev st))
      then fmul (default_epe_of self (gga_fix_type d)) (Finite 2) else alt_std_dev st)"
    using handle_GGA_std_devs(3) [of self d st ct fr] handle_GGA_rejected [of self d st ct fr]
    by (cases "use_GNSS_time self \<and> isnan (fst (gga_utc_time d))") (simp_all add: outcome_simps)
qed

lemma default_epe_nonneg:
  assumes "defaults_nonneg self"
  shows "\<not> is_negative (default_epe_of self c)"
proof (cases "c \<in> fst ` set (gps_qualities self)")
  case True
  then have "c \<in> {- 1, 0, 1, 2, 4, 5, 9}"
    by (simp add: table_keys)
  with assms show ?thesis
    by (auto simp: default_epe_of_table defaults_nonneg_def)
next
  case False
  with assms show ?thesis
    by (simp add: default_epe_of_table defaults_nonneg_def)
qed

lemma doubled_nonneg: "\<not> is_negative e \<Longrightarrow> \<not> is_negative (fmul e (Finite 2))"
  by (cases e) simp_all

lemma handle_GGA_nonneg:
  assumes "defaults_nonneg self" and "std_devs_nonneg st"
  shows "std_devs_nonneg (state_of (handle_GGA self st d ct fr))"
  using assms default_epe_nonneg [OF assms(1), of "gga_fix_type d"]
  by (simp add: std_devs_nonneg_def handle_GGA_std_devs_total doubled_nonneg)

lemma handle_GST_nonneg: "gst_nonneg d \<Longrightarrow> std_devs_nonneg (state_of (handle_GST st d))"
  by (simp add: handle_GST_def gst_nonneg_def std_devs_nonneg_def outcome_simps)

lemma add_sentence_nonneg:
  assumes "defaults_nonneg self"
    and "\<forall>d. parse_nmea_sentence env s = Some (GST d) \<longrightarrow> gst_nonneg d"
    and "std_devs_nonneg st"
  shows "std_devs_nonneg (state_of (add_sentence env clk self st s fr ts))"
proof (cases "check_nmea_checksum env s")
  case False
  with assms(3) show ?thesis by (simp add: state_of_add_sentence)
next
  case True
  show ?thesis
  proof (cases "parse_nmea_sentence env s")
    case None
    with True assms(3) show ?thesis by (simp add: state_of_add_sentence)
  next
    case (Some p)
    show ?thesis
    proof (cases p)
      case (GGA d)
      with True Some assms(1,3) show ?thesis
        by (simp add: state_of_add_sentence state_of_dispatch handle_GGA_nonneg)
    next
      case (GST d)
      with Some assms(2) have "gst_nonneg d" by blast
      with True Some GST show ?thesis
        by (simp add: state_of_add_sentence state_of_dispatch handle_GST_nonneg)
    qed (use True Some assms(3) in \<open>simp_all add: state_of_add_sentence state_of_dispatch\<close>)
  qed
qed

lemma gst_values_nonneg_Cons:
  "gst_values_nonneg env ((clk, s, fr, ts) # calls) \<longleftrightarrow>
     (\<forall>d. parse_nmea_sentence env s = Some (GST d) \<longrightarrow> gst_nonneg d) \<and>
     gst_values_nonneg env calls"
  by (auto simp: gst_values_nonneg_def split: option.splits parsed_sentence.splits)

lemma gst_values_nonneg_take:
  "gst_values_nonneg env calls \<Longrightarrow> gst_values_nonneg env (take n calls)"
  unfolding gst_values_nonneg_def list_all_iff
  by (meson in_set_takeD)

lemma run_nonneg:
  assumes "defaults_nonneg self"
  shows "gst_values_nonneg env calls \<Longrightarrow> std_devs_nonneg st \<Longrightarrow>
           std_devs_nonneg (run env self st calls)"
proof (induction calls arbitrary: st)
  case Nil
  then show ?case by simp
next
  case (Cons call calls)
  obtain clk s fr ts where call: "call = (clk, s, fr, ts)"
    by (cases call) auto
  from Cons.prems(1) have here: "\<forall>d. parse_nmea_sentence env s = Some (GST d) \<longrightarrow> gst_nonneg d"
    and rest: "gst_values_nonneg env calls"
    by (simp_all add: call gst_values_nonneg_Cons)
  from add_sentence_nonneg [OF assms here Cons.prems(2), of clk fr ts]
  have "std_devs_nonneg (fst (add_sentence env clk self st s fr ts))"
    by (simp add: state_of_def)
  from Cons.IH [OF rest this] show ?case
    by (simp add: call)
qed

lemma init_state_nonneg: "std_devs_nonneg init_state"
  by (simp add: std_devs_nonneg_def init_state_def)

subsection \<open>The sample sentences\<close>

lemmas sample_sentence_defs =
  gga_sentence_def gga_bad_checksum_def gga_south_west_def gga_unknown_quality_def
  gga_no_time_def gst_sentence_def gst_negative_def gst_partial_def rmc_sentence_def
  rmc_south_west_def rmc_invalid_def rmc_no_time_def hdt_sentence_def

lemma sample_env_simps:
  "check_nmea_checksum sample_env = spec_check_nmea_checksum"
  "parse_nmea_sentence sample_env = sample_parser"
  by (simp_all add: sample_env_def)

lemma sample_checksums:
  "spec_check_nmea_checksum gga_sentence"
  "\<not> spec_check_nmea_checksum gga_bad_checksum"
  "spec_check_nmea_checksum gga_south_west"
  "spec_check_nmea_checksum gga_unknown_quality"
  "spec_check_nmea_checksum gga_no_time"
  "spec_check_nmea_checksum gst_sentence"
  "spec_check_nmea_checksum gst_negative"
  "spec_check_nmea_checksum gst_partial"
  "spec_check_nmea_checksum rmc_sentence"
  "spec_check_nmea_checksum rmc_south_west"
  "spec_check_nmea_checksum rmc_invalid"
  "spec_check_nmea_checksum rmc_no_time"
  "spec_check_nmea_checksum hdt_sentence"
  unfolding sample_sentence_defs
  by (simp_all add: spec_check_nmea_checksum_def xor_bytes_def hex2_def hex_digit_def upper_def)

lemma sample_parses:
  "sample_parser gga_sentence = Some (GGA gga_decoded)"
  "sample_parser gga_south_west =
     Some (GGA (gga_decoded \<lparr> gga_latitude_direction := ''S'', gga_longitude_direction := ''W'' \<rparr>))"
  "sample_parser gga_unknown_quality = Some (GGA (gga_decoded \<lparr> gga_fix_type := 3 \<rparr>))"
  "sample_parser gga_no_time = Some (GGA (gga_decoded \<lparr> gga_utc_time := (NaN, 0) \<rparr>))"
  "sample_parser gst_sentence = Some (GST gst_decoded)"
  "sample_parser gst_negative =
     Some (GST (gst_decoded \<lparr> gst_lon_std_dev := Finite (- 0.5) \<rparr>))"
  "sample_parser gst_partial =
     Some (GST \<lparr> gst_lon_std_dev = NaN, gst_lat_std_dev = Finite 0.023, gst_alt_std_dev = Finite 0.031 \<rparr>)"
  "sample_parser rmc_sentence = Some (RMC rmc_decoded)"
  "sample_parser rmc_south_west =
     Some (RMC (rmc_decoded \<lparr> rmc_latitude_direction := ''S'', rmc_longitude_direction := ''W'' \<rparr>))"
  "sample_parser rmc_invalid = Some (RMC (rmc_decoded \<lparr> rmc_fix_valid := False \<rparr>))"
  "sample_parser rmc_no_time = Some (RMC (rmc_decoded \<lparr> rmc_utc_time := (NaN, 0) \<rparr>))"
  "sample_parser hdt_sentence = Some (HDT hdt_decoded)"
  unfolding sample_parser_def sample_sentence_defs by simp_all

lemma sample_echoes:
  "raw_echo clk gga_sentence = [NmeaSentence \<lparr> hs_stamp = clk 0, hs_data = gga_sentence @ crlf \<rparr>]"
  "raw_echo clk gga_bad_checksum = [NmeaSentence \<lparr> hs_stamp = clk 0, hs_data = gga_bad_checksum @ crlf \<rparr>]"
  "raw_echo clk gga_south_west = [NmeaSentence \<lparr> hs_stamp = clk 0, hs_data = gga_south_west @ crlf \<rparr>]"
  "raw_echo clk gga_unknown_quality = [NmeaSentence \<lparr> hs_stamp = clk 0, hs_data = gga_unknown_quality @ crlf \<rparr>]"
  "raw_echo clk gga_no_time = [NmeaSentence \<lparr> hs_stamp = clk 0, hs_data = gga_no_time @ crlf \<rparr>]"
  "raw_echo clk gst_sentence = [NmeaSentence \<lparr> hs_stamp = clk 0, hs_data = gst_sentence @ crlf \<rparr>]"
  "raw_echo clk rmc_sentence = [NmeaSentence \<lparr> hs_stamp = clk 0, hs_data = rmc_sentence @ crlf \<rparr>]"
  "raw_echo clk rmc_south_west = [NmeaSentence \<lparr> hs_stamp = clk 0, hs_data = rmc_south_west @ crlf \<rparr>]"
  "raw_echo clk rmc_invalid = [NmeaSentence \<lparr> hs_stamp = clk 0, hs_data = rmc_invalid @ crlf \<rparr>]"
  "raw_echo clk rmc_no_time = [NmeaSentence \<lparr> hs_stamp = clk 0, hs_data = rmc_no_time @ crlf \<rparr>]"
  unfolding raw_echo_def echo_wanted_def backslash_def sample_sentence_defs by simp_all

section \<open>The return value\<close>

text \<open>
  C10. \<open>add_sentence\<close> never returns \<open>True\<close>. It returns \<open>False\<close> exactly when the
  checksum fails, the parser fails, the GNSS-time check rejects the sentence, or no branch
  of the chain takes the sentence; it returns \<open>None\<close> exactly when a branch handles the
  sentence to its end. Both values are falsy, so the truth value of the result is the same
  for success and for failure.
\<close>

theorem add_sentence_return_value:
  "returned (add_sentence env clk self st s fr ts) \<noteq> Some True \<and>
   \<not> py_bool (returned (add_sentence env clk self st s fr ts)) \<and>
   (returned (add_sentence env clk self st s fr ts) = Some False \<longleftrightarrow>
      \<not> check_nmea_checksum env s \<or> parse_nmea_sentence env s = None \<or>
      (\<exists>p. parse_nmea_sentence env s = Some p \<and> (unusable_time self p \<or> \<not> recognized self p))) \<and>
   (returned (add_sentence env clk self st s fr ts) = None \<longleftrightarrow>
      check_nmea_checksum env s \<and>
      (\<exists>p. parse_nmea_sentence env s = Some p \<and> recognized self p \<and> \<not> unusable_time self p))"
proof (cases "check_nmea_checksum env s")
  case False
  then show ?thesis by (simp add: add_sentence_cases returned_def)
next
  case True
  show ?thesis
  proof (cases "parse_nmea_sentence env s")
    case None
    with True show ?thesis by (simp add: add_sentence_cases returned_def)
  next
    case (Some p)
    with True have "returned (add_sentence env clk self st s fr ts) =
      (if recognized self p \<and> \<not> unusable_time self p then None else Some False)"
      using dispatch_returned [of self st p] by (simp add: add_sentence_cases returned_def)
    with True Some show ?thesis by auto
  qed
qed

theorem add_sentence_return_value_witness:
  "returned (add_sentence sample_env demo_clock default_config init_state gga_sentence ''gps'' None) = None \<and>
   returned (add_sentence sample_env demo_clock default_config init_state gga_bad_checksum ''gps'' None)
     = Some False"
  using add_sentence_return_value [of sample_env demo_clock default_config init_state gga_sentence "''gps''" None]
    add_sentence_return_value [of sample_env demo_clock default_config init_state gga_bad_checksum "''gps''" None]
  by (simp add: sample_env_simps sample_checksums sample_parses default_config_def)

section \<open>Rejected sentences\<close>

text \<open>
  C4 (as amended). When the checksum of the raw sentence does not validate,
  \<open>add_sentence\<close> leaves the driver state unchanged and returns \<open>False\<close>, and the only
  messages it publishes are the raw echoes, one for each fragment of the string that starts
  with \<open>$\<close> or \<open>!\<close> and is not blacklisted: they are published before the checksum is
  looked at.
\<close>

theorem checksum_failure_outcome:
  assumes "\<not> check_nmea_checksum env s"
  shows "state_of (add_sentence env clk self st s fr ts) = st \<and>
         returned (add_sentence env clk self st s fr ts) = Some False \<and>
         published (add_sentence env clk self st s fr ts) = raw_echo clk s \<and>
         (\<forall>r \<in> set (published (add_sentence env clk self st s fr ts)). is_echo r) \<and>
         length (published (add_sentence env clk self st s fr ts)) =
           length (filter echo_wanted (split_str backslash s))"
  using assms
  by (simp add: add_sentence_dropped outcome_defs raw_echo_is_echo length_raw_echo)

theorem checksum_failure_outcome_witness:
  "state_of (add_sentence sample_env demo_clock default_config init_state gga_bad_checksum ''gps'' None)
     = init_state \<and>
   returned (add_sentence sample_env demo_clock default_config init_state gga_bad_checksum ''gps'' None)
     = Some False \<and>
   length (published
     (add_sentence sample_env demo_clock default_config init_state gga_bad_checksum ''gps'' None)) = 1"
  using checksum_failure_outcome [of sample_env gga_bad_checksum demo_clock default_config init_state
      "''gps''" None]
  by (simp add: sample_env_simps sample_checksums sample_echoes)

text \<open>The claim as first stated, that no message at all is published, fails on the sample
  sentence with its checksum digits altered: the echo is out before the check.\<close>

theorem checksum_failure_counterexample:
  "\<not> spec_check_nmea_checksum gga_bad_checksum \<and>
   published (add_sentence sample_env demo_clock default_config init_state gga_bad_checksum ''gps'' None)
     = [NmeaSentence \<lparr> hs_stamp = demo_clock 0, hs_data = gga_bad_checksum @ crlf \<rparr>]"
  by (simp add: sample_env_simps sample_checksums add_sentence_dropped published_def sample_echoes)

text \<open>
  C5 (as amended). In GNSS-time mode, a sentence decoded as GGA or RMC whose time value is
  not-a-number makes \<open>add_sentence\<close> return \<open>False\<close> and leave the driver state
  unchanged; it publishes nothing but the raw echoes, which are out before the sentence is
  decoded.
\<close>

theorem unusable_time_outcome:
  assumes "check_nmea_checksum env s"
    and "parse_nmea_sentence env s = Some p"
    and "use_GNSS_time self"
    and "reported_time p = Some t"
    and "isnan t"
  shows "state_of (add_sentence env clk self st s fr ts) = st \<and>
         returned (add_sentence env clk self st s fr ts) = Some False \<and>
         published (add_sentence env clk self st s fr ts) = raw_echo clk s \<and>
         (\<forall>r \<in> set (published (add_sentence env clk self st s fr ts)). is_echo r)"
proof -
  from assms(3-5) have "unusable_time self p \<or> \<not> recognized self p"
    by (cases p) auto
  then have "dispatch self st p (current_time_of clk (length (raw_echo clk s)) ts) fr
               = (st, [], Some False)"
    by (rule dispatch_rejected)
  with assms(1,2) show ?thesis
    by (simp add: add_sentence_cases outcome_defs raw_echo_is_echo)
qed

theorem unusable_time_outcome_witness:
  "state_of (add_sentence sample_env demo_clock (default_config \<lparr> use_GNSS_time := True \<rparr>)
      init_state rmc_no_time ''gps'' None) = init_state \<and>
   returned (add_sentence sample_env demo_clock (default_config \<lparr> use_GNSS_time := True \<rparr>)
      init_state rmc_no_time ''gps'' None) = Some False"
  using unusable_time_outcome [of sample_env rmc_no_time
      "RMC (rmc_decoded \<lparr> rmc_utc_time := (NaN, 0) \<rparr>)" "default_config \<lparr> use_GNSS_time := True \<rparr>"
      NaN demo_clock init_state "''gps''" None]
  by (simp add: sample_env_simps sample_checksums sample_parses)

theorem unusable_time_counterexample:
  "spec_check_nmea_checksum gga_no_time \<and>
   sample_parser gga_no_time = Some (GGA (gga_decoded \<lparr> gga_utc_time := (NaN, 0) \<rparr>)) \<and>
   published (add_sentence sample_env demo_clock (default_config \<lparr> use_GNSS_time := True \<rparr>)
      init_state gga_no_time ''gps'' None)
     = [NmeaSentence \<lparr> hs_stamp = demo_clock 0, hs_data = gga_no_time @ crlf \<rparr>]"
  by (simp add: sample_env_simps sample_checksums sample_parses add_sentence_parsed sample_echoes)
     (simp add: dispatch_def handle_GGA_def default_config_def published_def)

section \<open>The error-estimate sentence\<close>

text \<open>
  C6. Handling the same GST sentence twice in succession leaves the driver state as
  handling it once does. The GST branch sets \<open>using_receiver_epe\<close> and overwrites the
  three standard deviations from the sentence; it publishes nothing, so the call publishes
  the raw echoes only.
\<close>

theorem gst_idempotent:
  assumes "check_nmea_checksum env s"
    and "parse_nmea_sentence env s = Some (GST d)"
  shows "state_of (add_sentence env clk2 self
            (state_of (add_sentence env clk1 self st s fr1 ts1)) s fr2 ts2)
           = state_of (add_sentence env clk1 self st s fr1 ts1) \<and>
         state_of (add_sentence env clk1 self st s fr1 ts1)
           = st \<lparr> using_receiver_epe := True, lon_std_dev := gst_lon_std_dev d,
                  lat_std_dev := gst_lat_std_dev d, alt_std_dev := gst_alt_std_dev d \<rparr> \<and>
         published (handle_GST st d) = [] \<and>
         published (add_sentence env clk1 self st s fr1 ts1) = raw_echo clk1 s"
  using assms
  by (simp add: add_sentence_parsed dispatch_def) (simp add: handle_GST_def outcome_defs)

theorem gst_idempotent_witness:
  "state_of (add_sentence sample_env demo_clock default_config
      (state_of (add_sentence sample_env demo_clock default_config init_state gst_sentence ''gps'' None))
      gst_sentence ''gps'' None)
     = state_of (add_sentence sample_env demo_clock default_config init_state gst_sentence ''gps'' None) \<and>
   state_of (add_sentence sample_env demo_clock default_config init_state gst_sentence ''gps'' None)
     = init_state \<lparr> using_receiver_epe := True, lon_std_dev := Finite 0.020,
         lat_std_dev := Finite 0.023, alt_std_dev := Finite 0.031 \<rparr>"
proof -
  have checked: "check_nmea_checksum sample_env gst_sentence"
    by (simp add: sample_env_simps sample_checksums)
  have parsed: "parse_nmea_sentence sample_env gst_sentence = Some (GST gst_decoded)"
    by (simp add: sample_env_simps sample_parses)
  from gst_idempotent [OF checked parsed, of demo_clock default_config demo_clock init_state
      "''gps''" None "''gps''" None]
  show ?thesis by (auto simp: gst_decoded_def)
qed

section \<open>The position fix from GGA\<close>

text \<open>
  C2. For a GGA sentence handled with RMC-as-position-source disabled (checksum and parser
  passed, not rejected by the GNSS-time check): each standard deviation for which
  \<open>using_receiver_epe\<close> is false or the stored value is not-a-number is replaced by the
  quality table's default error, twice that default for altitude, and is kept otherwise;
  one \<open>NavSatFix\<close> is published, whose covariance is \<open>(hdop * lon_std_dev) ** 2\<close> at
  index 0, \<open>(hdop * lat_std_dev) ** 2\<close> at index 4, \<open>(2 * hdop * alt_std_dev) ** 2\<close> at
  index 8, and zero at the six other indices.
\<close>

theorem gga_fallback_and_covariance:
  assumes "check_nmea_checksum env s"
    and "parse_nmea_sentence env s = Some (GGA d)"
    and "\<not> use_RMC self"
    and "\<not> (use_GNSS_time self \<and> isnan (fst (gga_utc_time d)))"
  shows "lon_std_dev (state_of (add_sentence env clk self st s fr ts)) =
           (if \<not> using_receiver_epe st \<or> isnan (lon_std_dev st)
            then default_epe_of self (gga_fix_type d) else lon_std_dev st) \<and>
         lat_std_dev (state_of (add_sentence env clk self st s fr ts)) =
           (if \<not> using_receiver_epe st \<or> isnan (lat_std_dev st)
            then default_epe_of self (gga_fix_type d) else lat_std_dev st) \<and>
         alt_std_dev (state_of (add_sentence env clk self st s fr ts)) =
           (if \<not> using_receiver_epe st \<or> isnan (alt_std_dev st)
            then fmul (default_epe_of self (gga_fix_type d)) (Finite 2) else alt_std_dev st) \<and>
         map fix_position_covariance (fix_reports (published (add_sentence env clk self st s fr ts))) =
           [[fsquare (fmul (gga_hdop d)
               (lon_std_dev (state_of (add_sentence env clk self st s fr ts)))),
             Finite 0, Finite 0,
             Finite 0,
             fsquare (fmul (gga_hdop d)
               (lat_std_dev (state_of (add_sentence env clk self st s fr ts)))),
             Finite 0,
             Finite 0, Finite 0,
             fsquare (fmul (fmul (Finite 2) (gga_hdop d))
               (alt_std_dev (state_of (add_sentence env clk self st s fr ts))))]]"
proof -
  let ?ct = "current_time_of clk (length (raw_echo clk s)) ts"
  have st: "state_of (add_sentence env clk self st s fr ts) = state_of (handle_GGA self st d ?ct fr)"
    using assms(1-3) by (simp add: add_sentence_parsed dispatch_GGA)
  have pub: "fix_reports (published (add_sentence env clk self st s fr ts)) =
               fix_reports (published (handle_GGA self st d ?ct fr))"
    using assms(1-3)
    by (simp add: add_sentence_parsed dispatch_GGA fix_reports_append fix_reports_raw_echo)
  from handle_GGA_fix [OF assms(4), of st ?ct fr] obtain f where
    f: "fix_reports (published (handle_GGA self st d ?ct fr)) = [f]"
       "fix_position_covariance f =
         [fsquare (fmul (gga_hdop d) (lon_std_dev (state_of (handle_GGA self st d ?ct fr)))),
          Finite 0, Finite 0, Finite 0,
          fsquare (fmul (gga_hdop d) (lat_std_dev (state_of (handle_GGA self st d ?ct fr)))),
          Finite 0, Finite 0, Finite 0,
          fsquare (fmul (fmul (Finite 2) (gga_hdop d))
            (alt_std_dev (state_of (handle_GGA self st d ?ct fr))))]"
    by blast
  show ?thesis
    unfolding st pub f(1) using f(2) handle_GGA_std_devs(1-3) [OF assms(4), of st ?ct fr]
    by simp
qed

theorem gga_fallback_and_covariance_witness:
  "std_devs (state_of
      (add_sentence sample_env demo_clock default_config init_state gga_sentence ''gps'' None))
     = (Finite 4, Finite 4, Finite 8) \<and>
   map fix_position_covariance (fix_reports (published
      (add_sentence sample_env demo_clock default_config init_state gga_sentence ''gps'' None)))
     = [[Finite 12.96, Finite 0, Finite 0, Finite 0, Finite 12.96, Finite 0, Finite 0, Finite 0,
         Finite 207.36]]"
proof -
  have checked: "check_nmea_checksum sample_env gga_sentence"
    by (simp add: sample_env_simps sample_checksums)
  have parsed: "parse_nmea_sentence sample_env gga_sentence = Some (GGA gga_decoded)"
    by (simp add: sample_env_simps sample_parses)
  have mode: "\<not> use_RMC default_config"
    by (simp add: default_config_def)
  have time: "\<not> (use_GNSS_time default_config \<and> isnan (fst (gga_utc_time gga_decoded)))"
    by (simp add: default_config_def)
  from gga_fallback_and_covariance [OF checked parsed mode time, of demo_clock init_state "''gps''" None]
  show ?thesis
    by (simp add: std_devs_def init_state_def gga_decoded_def default_epe_of_table default_config_def
        power2_eq_square)
qed

section \<open>Hemisphere signs\<close>

lemma published_fix_signs:
  assumes "f \<in> set (fix_reports (published (add_sentence env clk self st s fr ts)))"
  shows "(\<forall>d. parse_nmea_sentence env s = Some (GGA d) \<longrightarrow>
            (gga_latitude_direction d = ''S'' \<longrightarrow>
               fix_latitude f = fneg (gga_latitude d) \<and>
               (\<forall>m. gga_latitude d = Finite m \<and> 0 < m \<longrightarrow> is_negative (fix_latitude f))) \<and>
            (gga_latitude_direction d = ''N'' \<longrightarrow> fix_latitude f = gga_latitude d) \<and>
            (gga_longitude_direction d = ''W'' \<longrightarrow>
               fix_longitude f = fneg (gga_longitude d) \<and>
               (\<forall>m. gga_longitude d = Finite m \<and> 0 < m \<longrightarrow> is_negative (fix_longitude f))) \<and>
            (gga_longitude_direction d = ''E'' \<longrightarrow> fix_longitude f = gga_longitude d)) \<and>
         (\<forall>d. parse_nmea_sentence env s = Some (RMC d) \<longrightarrow>
            (rmc_latitude_direction d = ''S'' \<longrightarrow>
               fix_latitude f = fneg (rmc_latitude d) \<and>
               (\<forall>m. rmc_latitude d = Finite m \<and> 0 < m \<longrightarrow> is_negative (fix_latitude f))) \<and>
            (rmc_latitude_direction d = ''N'' \<longrightarrow> fix_latitude f = rmc_latitude d) \<and>
            (rmc_longitude_direction d = ''W'' \<longrightarrow>
               fix_longitude f = fneg (rmc_longitude d) \<and>
               (\<forall>m. rmc_longitude d = Finite m \<and> 0 < m \<longrightarrow> is_negative (fix_longitude f))) \<and>
            (rmc_longitude_direction d = ''E'' \<longrightarrow> fix_longitude f = rmc_longitude d))"
proof (intro conjI allI impI)
  fix d
  assume parsed: "parse_nmea_sentence env s = Some (GGA d)"
  let ?ct = "current_time_of clk (length (raw_echo clk s)) ts"
  from assms parsed have mem: "f \<in> set (fix_reports (published (handle_GGA self st d ?ct fr)))"
    by (simp add: fix_reports_add_sentence fix_reports_dispatch split: if_splits)
  then have accepted: "\<not> (use_GNSS_time self \<and> isnan (fst (gga_utc_time d)))"
    using handle_GGA_rejected [of self d st ?ct fr] by (auto simp: published_def)
  from handle_GGA_fix [OF accepted, of st ?ct fr] mem
  have lat: "fix_latitude f =
          (if gga_latitude_direction d = ''S'' then fneg (gga_latitude d) else gga_latitude d)"
    and lon: "fix_longitude f =
          (if gga_longitude_direction d = ''W'' then fneg (gga_longitude d) else gga_longitude d)"
    by auto
  {
    assume "gga_latitude_direction d = ''S''"
    with lat show "fix_latitude f = fneg (gga_latitude d)" by simp
    then show "\<And>m. gga_latitude d = Finite m \<and> 0 < m \<Longrightarrow> is_negative (fix_latitude f)" by simp
  }
  {
    assume "gga_latitude_direction d = ''N''"
    with lat show "fix_latitude f = gga_latitude d" by simp
  }
  {
    assume "gga_longitude_direction d = ''W''"
    with lon show "fix_longitude f = fneg (gga_longitude d)" by simp
    then show "\<And>m. gga_longitude d = Finite m \<and> 0 < m \<Longrightarrow> is_negative (fix_longitude f)" by simp
  }
  {
    assume "gga_longitude_direction d = ''E''"
    with lon show "fix_longitude f = gga_longitude d" by simp
  }
next
  fix d
  assume parsed: "parse_nmea_sentence env s = Some (RMC d)"
  let ?ct = "current_time_of clk (length (raw_echo clk s)) ts"
  from assms parsed have mem: "f \<in> set (fix_reports (published (handle_RMC self st d ?ct fr)))"
    by (simp add: fix_reports_add_sentence fix_reports_dispatch split: if_splits)
  then have accepted: "\<not> (use_GNSS_time self \<and> isnan (fst (rmc_utc_time d)))"
    using handle_RMC_rejected [of self d st ?ct fr] by (auto simp: published_def)
  from mem have lat: "fix_latitude f =
          (if rmc_latitude_direction d = ''S'' then fneg (rmc_latitude d) else rmc_latitude d)"
    and lon: "fix_longitude f =
          (if rmc_longitude_direction d = ''W'' then fneg (rmc_longitude d) else rmc_longitude d)"
    unfolding handle_RMC_fix [OF accepted] by (auto split: if_splits)
  {
    assume "rmc_latitude_direction d = ''S''"
    with lat show "fix_latitude f = fneg (rmc_latitude d)" by simp
    then show "\<And>m. rmc_latitude d = Finite m \<and> 0 < m \<Longrightarrow> is_negative (fix_latitude f)" by simp
  }
  {
    assume "rmc_latitude_direction d = ''N''"
    with lat show "fix_latitude f = rmc_latitude d" by simp
  }
  {
    assume "rmc_longitude_direction d = ''W''"
    with lon show "fix_longitude f = fneg (rmc_longitude d)" by simp
    then show "\<And>m. rmc_longitude d = Finite m \<and> 0 < m \<Longrightarrow> is_negative (fix_longitude f)" by simp
  }
  {
    assume "rmc_longitude_direction d = ''E''"
    with lon show "fix_longitude f = rmc_longitude d" by simp
  }
qed

lemma gga_fix_signs:
  assumes "check_nmea_checksum env s"
    and "parse_nmea_sentence env s = Some (GGA d)"
    and "\<not> use_RMC self"
    and "\<not> (use_GNSS_time self \<and> isnan (fst (gga_utc_time d)))"
  shows "map fix_latitude (fix_reports (published (add_sentence env clk self st s fr ts))) =
           [if gga_latitude_direction d = ''S'' then fneg (gga_latitude d) else gga_latitude d]"
    and "map fix_longitude (fix_reports (published (add_sentence env clk self st s fr ts))) =
           [if gga_longitude_direction d = ''W'' then fneg (gga_longitude d) else gga_longitude d]"
proof -
  let ?ct = "current_time_of clk (length (raw_echo clk s)) ts"
  have pub: "fix_reports (published (add_sentence env clk self st s fr ts)) =
               fix_reports (published (handle_GGA self st d ?ct fr))"
    using assms(1-3) by (simp add: fix_reports_add_sentence fix_reports_dispatch)
  from handle_GGA_fix [OF assms(4), of st ?ct fr] obtain f where
    f: "fix_reports (published (handle_GGA self st d ?ct fr)) = [f]"
       "fix_latitude f =
          (if gga_latitude_direction d = ''S'' then fneg (gga_latitude d) else gga_latitude d)"
       "fix_longitude f =
          (if gga_longitude_direction d = ''W'' then fneg (gga_longitude d) else gga_longitude d)"
    by blast
  show "map fix_latitude (fix_reports (published (add_sentence env clk self st s fr ts))) =
           [if gga_latitude_direction d = ''S'' then fneg (gga_latitude d) else gga_latitude d]"
    unfolding pub f(1) using f(2) by simp
  show "map fix_longitude (fix_reports (published (add_sentence env clk self st s fr ts))) =
           [if gga_longitude_direction d = ''W'' then fneg (gga_longitude d) else gga_longitude d]"
    unfolding pub f(1) using f(3) by simp
qed

lemma rmc_fix_signs:
  assumes "check_nmea_checksum env s"
    and "parse_nmea_sentence env s = Some (RMC d)"
    and "use_RMC self"
    and "\<not> (use_GNSS_time self \<and> isnan (fst (rmc_utc_time d)))"
  shows "map fix_latitude (fix_reports (published (add_sentence env clk self st s fr ts))) =
           [if rmc_latitude_direction d = ''S'' then fneg (rmc_latitude d) else rmc_latitude d]"
    and "map fix_longitude (fix_reports (published (add_sentence env clk self st s fr ts))) =
           [if rmc_longitude_direction d = ''W'' then fneg (rmc_longitude d) else rmc_longitude d]"
  using assms(1-3)
  by (simp_all add: fix_reports_add_sentence fix_reports_dispatch handle_RMC_fix [OF assms(4)])

text \<open>
  C8. A GGA sentence handled with RMC-as-position-source disabled, and an RMC sentence
  handled with it enabled, each publish one \<open>NavSatFix\<close>, whose latitude is the negation
  of the sentence's latitude when the direction letter is \<open>S\<close> and the sentence's
  latitude unchanged otherwise, and whose longitude is the negation of the sentence's
  longitude when the letter is \<open>W\<close> and unchanged otherwise. In every \<open>NavSatFix\<close>
  published for a GGA or RMC sentence, \<open>S\<close> and \<open>W\<close> give the negation (negative when
  the magnitude is positive), \<open>N\<close> and \<open>E\<close> the magnitude unchanged.
\<close>


theorem hemisphere_sign:
  "(check_nmea_checksum env s \<and> parse_nmea_sentence env s = Some (GGA g) \<and> \<not> use_RMC self \<and>
    \<not> (use_GNSS_time self \<and> isnan (fst (gga_utc_time g))) \<longrightarrow>
      map fix_latitude (fix_reports (published (add_sentence env clk self st s fr ts))) =
        [if gga_latitude_direction g = ''S'' then fneg (gga_latitude g) else gga_latitude g] \<and>
      map fix_longitude (fix_reports (published (add_sentence env clk self st s fr ts))) =
        [if gga_longitude_direction g = ''W'' then fneg (gga_longitude g) else gga_longitude g]) \<and>
   (check_nmea_checksum env s \<and> parse_nmea_sentence env s = Some (RMC r) \<and> use_RMC self \<and>
    \<not> (use_GNSS_time self \<and> isnan (fst (rmc_utc_time r))) \<longrightarrow>
      map fix_latitude (fix_reports (published (add_sentence env clk self st s fr ts))) =
        [if rmc_latitude_direction r = ''S'' then fneg (rmc_latitude r) else rmc_latitude r] \<and>
      map fix_longitude (fix_reports (published (add_sentence env clk self st s fr ts))) =
        [if rmc_longitude_direction r = ''W'' then fneg (rmc_longitude r) else rmc_longitude r]) \<and>
   (\<forall>f \<in> set (fix_reports (published (add_sentence env clk self st s fr ts))).
      (\<forall>d. parse_nmea_sentence env s = Some (GGA d) \<longrightarrow>
         (gga_latitude_direction d = ''S'' \<longrightarrow>
            fix_latitude f = fneg (gga_latitude d) \<and>
            (\<forall>m. gga_latitude d = Finite m \<and> 0 < m \<longrightarrow> is_negative (fix_latitude f))) \<and>
         (gga_latitude_direction d = ''N'' \<longrightarrow> fix_latitude f = gga_latitude d) \<and>
         (gga_longitude_direction d = ''W'' \<longrightarrow>
            fix_longitude f = fneg (gga_longitude d) \<and>
            (\<forall>m. gga_longitude d = Finite m \<and> 0 < m \<longrightarrow> is_negative (fix_longitude f))) \<and>
         (gga_longitude_direction d = ''E'' \<longrightarrow> fix_longitude f = gga_longitude d)) \<and>
      (\<forall>d. parse_nmea_sentence env s = Some (RMC d) \<longrightarrow>
         (rmc_latitude_direction d = ''S'' \<longrightarrow>
            fix_latitude f = fneg (rmc_latitude d) \<and>
            (\<forall>m. rmc_latitude d = Finite m \<and> 0 < m \<longrightarrow> is_negative (fix_latitude f))) \<and>
         (rmc_latitude_direction d = ''N'' \<longrightarrow> fix_latitude f = rmc_latitude d) \<and>
         (rmc_longitude_direction d = ''W'' \<longrightarrow>
            fix_longitude f = fneg (rmc_longitude d) \<and>
            (\<forall>m. rmc_longitude d = Finite m \<and> 0 < m \<longrightarrow> is_negative (fix_longitude f))) \<and>
         (rmc_longitude_direction d = ''E'' \<longrightarrow> fix_longitude f = rmc_longitude d)))"
proof (intro conjI)
  show "check_nmea_checksum env s \<and> parse_nmea_sentence env s = Some (GGA g) \<and> \<not> use_RMC self \<and>
    \<not> (use_GNSS_time self \<and> isnan (fst (gga_utc_time g))) \<longrightarrow>
      map fix_latitude (fix_reports (published (add_sentence env clk self st s fr ts))) =
        [if gga_latitude_direction g = ''S'' then fneg (gga_latitude g) else gga_latitude g] \<and>
      map fix_longitude (fix_reports (published (add_sentence env clk self st s fr ts))) =
        [if gga_longitude_direction g = ''W'' then fneg (gga_longitude g) else gga_longitude g]"
    using gga_fix_signs [of env s g self clk st fr ts] by blast
  show "check_nmea_checksum env s \<and> parse_nmea_sentence env s = Some (RMC r) \<and> use_RMC self \<and>
    \<not> (use_GNSS_time self \<and> isnan (fst (rmc_utc_time r))) \<longrightarrow>
      map fix_latitude (fix_reports (published (add_sentence env clk self st s fr ts))) =
        [if rmc_latitude_direction r = ''S'' then fneg (rmc_latitude r) else rmc_latitude r] \<and>
      map fix_longitude (fix_reports (published (add_sentence env clk self st s fr ts))) =
        [if rmc_longitude_direction r = ''W'' then fneg (rmc_longitude r) else rmc_longitude r]"
    using rmc_fix_signs [of env s r self clk st fr ts] by blast
  show "\<forall>f \<in> set (fix_reports (published (add_sentence env clk self st s fr ts))).
      (\<forall>d. parse_nmea_sentence env s = Some (GGA d) \<longrightarrow>
         (gga_latitude_direction d = ''S'' \<longrightarrow>
            fix_latitude f = fneg (gga_latitude d) \<and>
            (\<forall>m. gga_latitude d = Finite m \<and> 0 < m \<longrightarrow> is_negative (fix_latitude f))) \<and>
         (gga_latitude_direction d = ''N'' \<longrightarrow> fix_latitude f = gga_latitude d) \<and>
         (gga_longitude_direction d = ''W'' \<longrightarrow>
            fix_longitude f = fneg (gga_longitude d) \<and>
            (\<forall>m. gga_longitude d = Finite m \<and> 0 < m \<longrightarrow> is_negative (fix_longitude f))) \<and>
         (gga_longitude_direction d = ''E'' \<longrightarrow> fix_longitude f = gga_longitude d)) \<and>
      (\<forall>d. parse_nmea_sentence env s = Some (RMC d) \<longrightarrow>
         (rmc_latitude_direction d = ''S'' \<longrightarrow>
            fix_latitude f = fneg (rmc_latitude d) \<and>
            (\<forall>m. rmc_latitude d = Finite m \<and> 0 < m \<longrightarrow> is_negative (fix_latitude f))) \<and>
         (rmc_latitude_direction d = ''N'' \<longrightarrow> fix_latitude f = rmc_latitude d) \<and>
         (rmc_longitude_direction d = ''W'' \<longrightarrow>
            fix_longitude f = fneg (rmc_longitude d) \<and>
            (\<forall>m. rmc_longitude d = Finite m \<and> 0 < m \<longrightarrow> is_negative (fix_longitude f))) \<and>
         (rmc_longitude_direction d = ''E'' \<longrightarrow> fix_longitude f = rmc_longitude d))"
    by (intro ballI) (rule published_fix_signs)
qed

theorem hemisphere_sign_witness:
  "map fix_latitude (fix_reports (published
      (add_sentence sample_env demo_clock default_config init_state gga_south_west ''gps'' None)))
     = [Finite (- 48.1173)] \<and>
   map fix_longitude (fix_reports (published
      (add_sentence sample_env demo_clock default_config init_state gga_south_west ''gps'' None)))
     = [Finite (- (11 + 31 / 60))] \<and>
   map fix_latitude (fix_reports (published
      (add_sentence sample_env demo_clock (default_config \<lparr> use_RMC := True \<rparr>) init_state
         rmc_south_west ''gps'' None)))
     = [Finite (- 48.1173)] \<and>
   map fix_longitude (fix_reports (published
      (add_sentence sample_env demo_clock (default_config \<lparr> use_RMC := True \<rparr>) init_state
         rmc_south_west ''gps'' None)))
     = [Finite (- (11 + 31 / 60))] \<and>
   map fix_latitude (fix_reports (published
      (add_sentence sample_env demo_clock (default_config \<lparr> use_RMC := True \<rparr>) init_state
         rmc_sentence ''gps'' None)))
     = [Finite 48.1173]"
proof -
  let ?gga = "gga_decoded \<lparr> gga_latitude_direction := ''S'', gga_longitude_direction := ''W'' \<rparr>"
  let ?rmc = "rmc_decoded \<lparr> rmc_latitude_direction := ''S'', rmc_longitude_direction := ''W'' \<rparr>"
  let ?rmc_mode = "default_config \<lparr> use_RMC := True \<rparr>"
  have gga: "check_nmea_checksum sample_env gga_south_west \<and>
      parse_nmea_sentence sample_env gga_south_west = Some (GGA ?gga) \<and>
      \<not> use_RMC default_config \<and>
      \<not> (use_GNSS_time default_config \<and> isnan (fst (gga_utc_time ?gga)))"
    by (simp add: sample_env_simps sample_checksums sample_parses default_config_def)
  have rmc: "check_nmea_checksum sample_env rmc_south_west \<and>
      parse_nmea_sentence sample_env rmc_south_west = Some (RMC ?rmc) \<and>
      use_RMC ?rmc_mode \<and>
      \<not> (use_GNSS_time ?rmc_mode \<and> isnan (fst (rmc_utc_time ?rmc)))"
    by (simp add: sample_env_simps sample_checksums sample_parses default_config_def)
  have north: "check_nmea_checksum sample_env rmc_sentence \<and>
      parse_nmea_sentence sample_env rmc_sentence = Some (RMC rmc_decoded) \<and>
      use_RMC ?rmc_mode \<and>
      \<not> (use_GNSS_time ?rmc_mode \<and> isnan (fst (rmc_utc_time rmc_decoded)))"
    by (simp add: sample_env_simps sample_checksums sample_parses default_config_def
        rmc_decoded_def)
  from hemisphere_sign [where env = sample_env and s = gga_south_west and g = ?gga
      and self = default_config and clk = demo_clock and st = init_state and fr = "''gps''"
      and ts = None] gga
  have a: "map fix_latitude (fix_reports (published
      (add_sentence sample_env demo_clock default_config init_state gga_south_west ''gps'' None)))
     = [Finite (- 48.1173)]"
    and b: "map fix_longitude (fix_reports (published
      (add_sentence sample_env demo_clock default_config init_state gga_south_west ''gps'' None)))
     = [Finite (- (11 + 31 / 60))]"
    by (simp_all add: gga_decoded_def)
  from hemisphere_sign [where env = sample_env and s = rmc_south_west and r = ?rmc
      and self = ?rmc_mode and clk = demo_clock and st = init_state and fr = "''gps''"
      and ts = None] rmc
  have c: "map fix_latitude (fix_reports (published
      (add_sentence sample_env demo_clock ?rmc_mode init_state rmc_south_west ''gps'' None)))
     = [Finite (- 48.1173)]"
    and d: "map fix_longitude (fix_reports (published
      (add_sentence sample_env demo_clock ?rmc_mode init_state rmc_south_west ''gps'' None)))
     = [Finite (- (11 + 31 / 60))]"
    by (simp_all add: rmc_decoded_def)
  from hemisphere_sign [where env = sample_env and s = rmc_sentence and r = rmc_decoded
      and self = ?rmc_mode and clk = demo_clock and st = init_state and fr = "''gps''"
      and ts = None] north
  have e: "map fix_latitude (fix_reports (published
      (add_sentence sample_env demo_clock ?rmc_mode init_state rmc_sentence ''gps'' None)))
     = [Finite 48.1173]"
    by (simp add: rmc_decoded_def)
  from a b c d e show ?thesis by blast
qed

section \<open>Unknown fix-quality codes\<close>

text \<open>
  C7. A GGA sentence whose fix-quality code is not a key of the quality table (the keys
  are -1, 0, 1, 2, 4, 5 and 9) is handled exactly as the same sentence decoded with code
  -1: the whole outcome of the call (state, messages, return value) is the same. The
  default error is that of code -1, and when the sentence is handled the published fix
  has status \<open>STATUS_NO_FIX\<close> and covariance type \<open>COVARIANCE_TYPE_UNKNOWN\<close>, and
  \<open>valid_fix\<close> is false afterwards.
\<close>

theorem unknown_quality_as_minus_one:
  assumes "gga_fix_type d \<notin> fst ` set (gps_qualities self)"
    and "parse_nmea_sentence env s = Some (GGA d)"
    and "parse_nmea_sentence env' s = Some (GGA (d \<lparr> gga_fix_type := - 1 \<rparr>))"
    and "check_nmea_checksum env' s = check_nmea_checksum env s"
  shows "fst ` set (gps_qualities self) = {- 1, 0, 1, 2, 4, 5, 9} \<and>
         add_sentence env clk self st s fr ts = add_sentence env' clk self st s fr ts \<and>
         dispatch self st (GGA d) ct fr = dispatch self st (GGA (d \<lparr> gga_fix_type := - 1 \<rparr>)) ct fr \<and>
         default_epe_of self (gga_fix_type d) = default_epe_of self (- 1) \<and>
         (returned (add_sentence env clk self st s fr ts) = None \<longrightarrow>
            \<not> valid_fix (state_of (add_sentence env clk self st s fr ts)) \<and>
            map fix_status (fix_reports (published (add_sentence env clk self st s fr ts)))
              = [STATUS_NO_FIX] \<and>
            map fix_position_covariance_type
                (fix_reports (published (add_sentence env clk self st s fr ts)))
              = [COVARIANCE_TYPE_UNKNOWN])"
proof -
  have eff: "effective_fix_type self (gga_fix_type d) = - 1"
    using assms(1) by (simp add: effective_fix_type_def)
  have eff': "effective_fix_type self (- 1) = - 1"
    by (simp add: effective_fix_type_def)
  have handler: "handle_GGA self st d t fr = handle_GGA self st (d \<lparr> gga_fix_type := - 1 \<rparr>) t fr"
    for t
    by (simp add: handle_GGA_def eff eff' Let_def)
  have disp: "dispatch self st (GGA d) t fr = dispatch self st (GGA (d \<lparr> gga_fix_type := - 1 \<rparr>)) t fr"
    for t
    by (simp add: dispatch_def handler)
  have same: "add_sentence env clk self st s fr ts = add_sentence env' clk self st s fr ts"
    using assms(2-4) disp by (simp add: add_sentence_cases)
  have epe: "default_epe_of self (gga_fix_type d) = default_epe_of self (- 1)"
    by (simp add: default_epe_of_def eff eff')
  have handled: "\<not> valid_fix (state_of (add_sentence env clk self st s fr ts)) \<and>
            map fix_status (fix_reports (published (add_sentence env clk self st s fr ts)))
              = [STATUS_NO_FIX] \<and>
            map fix_position_covariance_type
                (fix_reports (published (add_sentence env clk self st s fr ts)))
              = [COVARIANCE_TYPE_UNKNOWN]"
    if ret: "returned (add_sentence env clk self st s fr ts) = None"
  proof -
    let ?ct = "current_time_of clk (length (raw_echo clk s)) ts"
    from ret assms(2) have checked: "check_nmea_checksum env s"
      and mode: "\<not> use_RMC self"
      and accepted: "\<not> (use_GNSS_time self \<and> isnan (fst (gga_utc_time d)))"
      by (auto simp: returned_add_sentence split: if_splits)
    have st: "state_of (add_sentence env clk self st s fr ts) = state_of (handle_GGA self st d ?ct fr)"
      using checked assms(2) mode by (simp add: add_sentence_parsed dispatch_GGA)
    have pub: "fix_reports (published (add_sentence env clk self st s fr ts)) =
                 fix_reports (published (handle_GGA self st d ?ct fr))"
      using checked assms(2) mode
      by (simp add: fix_reports_add_sentence fix_reports_dispatch)
    from handle_GGA_fix [OF accepted, of st ?ct fr] obtain f where
      f: "fix_reports (published (handle_GGA self st d ?ct fr)) = [f]"
         "fix_status f =
            fst (snd (the (map_of (gps_qualities self) (effective_fix_type self (gga_fix_type d)))))"
         "fix_position_covariance_type f =
            snd (snd (the (map_of (gps_qualities self) (effective_fix_type self (gga_fix_type d)))))"
      by blast
    show ?thesis
      unfolding st pub f(1) using f(2,3) handle_GGA_std_devs(5) [OF accepted, of st ?ct fr]
      by (simp add: eff gps_qualities_def)
  qed
  from same disp epe handled show ?thesis
    by (simp add: table_keys)
qed

theorem unknown_quality_as_minus_one_witness:
  "add_sentence sample_env demo_clock default_config init_state gga_unknown_quality ''gps'' None
     = add_sentence sample_env_minus_one demo_clock default_config init_state gga_unknown_quality
         ''gps'' None \<and>
   \<not> valid_fix (state_of
       (add_sentence sample_env demo_clock default_config init_state gga_unknown_quality ''gps'' None)) \<and>
   map fix_status (fix_reports (published
       (add_sentence sample_env demo_clock default_config init_state gga_unknown_quality ''gps'' None)))
     = [STATUS_NO_FIX]"
proof -
  have key: "gga_fix_type (gga_decoded \<lparr> gga_fix_type := 3 \<rparr>) \<notin> fst ` set (gps_qualities default_config)"
    by (simp add: gps_qualities_def)
  have parsed: "parse_nmea_sentence sample_env gga_unknown_quality
                  = Some (GGA (gga_decoded \<lparr> gga_fix_type := 3 \<rparr>))"
    by (simp add: sample_env_simps sample_parses)
  have parsed': "parse_nmea_sentence sample_env_minus_one gga_unknown_quality
                  = Some (GGA (gga_decoded \<lparr> gga_fix_type := 3 \<rparr> \<lparr> gga_fix_type := - 1 \<rparr>))"
    by (simp add: sample_env_minus_one_def)
  have checked: "check_nmea_checksum sample_env_minus_one gga_unknown_quality
                  = check_nmea_checksum sample_env gga_unknown_quality"
    by (simp add: sample_env_minus_one_def sample_env_def)
  have ret: "returned (add_sentence sample_env demo_clock default_config init_state
                gga_unknown_quality ''gps'' None) = None"
    by (simp add: returned_add_sentence sample_env_simps sample_checksums sample_parses
        default_config_def gga_decoded_def)
  note inst = unknown_quality_as_minus_one [OF key parsed parsed' checked,
      of demo_clock init_state "''gps''" None]
  from inst have same:
    "add_sentence sample_env demo_clock default_config init_state gga_unknown_quality ''gps'' None
       = add_sentence sample_env_minus_one demo_clock default_config init_state gga_unknown_quality
           ''gps'' None"
    by blast
  from inst ret have
    "\<not> valid_fix (state_of
       (add_sentence sample_env demo_clock default_config init_state gga_unknown_quality ''gps'' None)) \<and>
     map fix_status (fix_reports (published
       (add_sentence sample_env demo_clock default_config init_state gga_unknown_quality ''gps'' None)))
       = [STATUS_NO_FIX]"
    by blast
  with same show ?thesis by blast
qed

section \<open>RMC: position and velocity\<close>

text \<open>
  C3 (as amended). For an RMC sentence whose fix-valid flag is false, \<open>add_sentence\<close>
  publishes no \<open>TwistStamped\<close> and does not change the driver state. While
  RMC-as-position-source mode is disabled it publishes no \<open>NavSatFix\<close>; when the mode is
  enabled it publishes one \<open>NavSatFix\<close>, with status \<open>STATUS_NO_FIX\<close>, unless the
  GNSS-time check rejects the sentence.
\<close>

theorem rmc_invalid_fix_outcome:
  assumes "check_nmea_checksum env s"
    and "parse_nmea_sentence env s = Some (RMC d)"
    and "\<not> rmc_fix_valid d"
  shows "vel_reports (published (add_sentence env clk self st s fr ts)) = [] \<and>
         state_of (add_sentence env clk self st s fr ts) = st \<and>
         (\<not> use_RMC self \<or> (use_GNSS_time self \<and> isnan (fst (rmc_utc_time d))) \<longrightarrow>
            fix_reports (published (add_sentence env clk self st s fr ts)) = []) \<and>
         (use_RMC self \<and> \<not> (use_GNSS_time self \<and> isnan (fst (rmc_utc_time d))) \<longrightarrow>
            map fix_status (fix_reports (published (add_sentence env clk self st s fr ts)))
              = [STATUS_NO_FIX])"
proof (cases "use_GNSS_time self \<and> isnan (fst (rmc_utc_time d))")
  case True
  with assms(1,2) show ?thesis
    by (simp add: vel_reports_add_sentence fix_reports_add_sentence vel_reports_dispatch
        fix_reports_dispatch add_sentence_parsed(1) dispatch_def handle_RMC_rejected outcome_simps)
next
  case False
  with assms show ?thesis
    by (simp add: vel_reports_add_sentence fix_reports_add_sentence vel_reports_dispatch
        fix_reports_dispatch add_sentence_parsed(1) dispatch_def handle_RMC_state
        handle_RMC_vel [OF False] handle_RMC_fix [OF False])
qed

theorem rmc_invalid_fix_outcome_witness:
  "vel_reports (published
      (add_sentence sample_env demo_clock default_config init_state rmc_invalid ''gps'' None)) = [] \<and>
   fix_reports (published
      (add_sentence sample_env demo_clock default_config init_state rmc_invalid ''gps'' None)) = []"
proof -
  have checked: "check_nmea_checksum sample_env rmc_invalid"
    by (simp add: sample_env_simps sample_checksums)
  have parsed: "parse_nmea_sentence sample_env rmc_invalid
                  = Some (RMC (rmc_decoded \<lparr> rmc_fix_valid := False \<rparr>))"
    by (simp add: sample_env_simps sample_parses)
  have invalid: "\<not> rmc_fix_valid (rmc_decoded \<lparr> rmc_fix_valid := False \<rparr>)"
    by simp
  from rmc_invalid_fix_outcome [OF checked parsed invalid, of demo_clock default_config init_state
      "''gps''" None]
  show ?thesis by (simp add: default_config_def)
qed

text \<open>The claim as first stated fails with RMC-as-position-source mode enabled: the
  sentence with the flag \<open>V\<close> still yields a \<open>NavSatFix\<close>, marked as no fix.\<close>

theorem rmc_invalid_fix_counterexample:
  "check_nmea_checksum sample_env rmc_invalid \<and>
   parse_nmea_sentence sample_env rmc_invalid = Some (RMC (rmc_decoded \<lparr> rmc_fix_valid := False \<rparr>)) \<and>
   map fix_status (fix_reports (published
      (add_sentence sample_env demo_clock (default_config \<lparr> use_RMC := True \<rparr>) init_state
         rmc_invalid ''gps'' None))) = [STATUS_NO_FIX]"
  by (simp add: sample_env_simps sample_checksums sample_parses fix_reports_add_sentence
      fix_reports_dispatch handle_RMC_fix default_config_def)

text \<open>
  C9 (as amended). For an RMC sentence reporting a valid fix that the GNSS-time check
  does not reject, exactly one \<open>TwistStamped\<close> is published, with
  \<open>x = speed * sin(true_course)\<close> and \<open>y = speed * cos(true_course)\<close>, whether or not
  RMC-as-position-source mode is enabled. Every \<open>TwistStamped\<close> published comes from an
  RMC sentence reporting a valid fix.
\<close>

theorem rmc_velocity:
  "(check_nmea_checksum env s \<and> parse_nmea_sentence env s = Some (RMC d) \<and> rmc_fix_valid d \<and>
    \<not> (use_GNSS_time self \<and> isnan (fst (rmc_utc_time d))) \<longrightarrow>
      vel_reports (published (add_sentence env clk self st s fr ts)) =
        [\<lparr> vel_stamp = current_time_of clk (length (raw_echo clk s)) ts, vel_frame_id = fr,
           vel_linear_x = fmul (rmc_speed d) (fsin (rmc_true_course d)),
           vel_linear_y = fmul (rmc_speed d) (fcos (rmc_true_course d)) \<rparr>]) \<and>
   (v \<in> set (vel_reports (published (add_sentence env clk self st s fr ts))) \<longrightarrow>
      check_nmea_checksum env s \<and>
      (\<exists>d'. parse_nmea_sentence env s = Some (RMC d') \<and> rmc_fix_valid d' \<and>
            \<not> (use_GNSS_time self \<and> isnan (fst (rmc_utc_time d')))))"
proof (intro conjI impI)
  assume a: "check_nmea_checksum env s \<and> parse_nmea_sentence env s = Some (RMC d) \<and> rmc_fix_valid d \<and>
    \<not> (use_GNSS_time self \<and> isnan (fst (rmc_utc_time d)))"
  then have accepted: "\<not> (use_GNSS_time self \<and> isnan (fst (rmc_utc_time d)))"
    by blast
  from a show "vel_reports (published (add_sentence env clk self st s fr ts)) =
        [\<lparr> vel_stamp = current_time_of clk (length (raw_echo clk s)) ts, vel_frame_id = fr,
           vel_linear_x = fmul (rmc_speed d) (fsin (rmc_true_course d)),
           vel_linear_y = fmul (rmc_speed d) (fcos (rmc_true_course d)) \<rparr>]"
    by (simp add: vel_reports_add_sentence vel_reports_dispatch handle_RMC_vel [OF accepted])
next
  assume mem: "v \<in> set (vel_reports (published (add_sentence env clk self st s fr ts)))"
  let ?ct = "current_time_of clk (length (raw_echo clk s)) ts"
  from mem show checked: "check_nmea_checksum env s"
    by (auto simp: vel_reports_add_sentence split: if_splits)
  from mem checked obtain p where p: "parse_nmea_sentence env s = Some p"
    and mem_p: "v \<in> set (vel_reports (published (dispatch self st p ?ct fr)))"
    by (cases "parse_nmea_sentence env s") (auto simp: vel_reports_add_sentence)
  from mem_p obtain d' where d': "p = RMC d'"
    and mem_d: "v \<in> set (vel_reports (published (handle_RMC self st d' ?ct fr)))"
    by (cases p) (auto simp: vel_reports_dispatch)
  have accepted: "\<not> (use_GNSS_time self \<and> isnan (fst (rmc_utc_time d')))"
    using mem_d handle_RMC_rejected [of self d' st ?ct fr] by (auto simp: published_def)
  from mem_d have "rmc_fix_valid d'"
    unfolding handle_RMC_vel [OF accepted] by (auto split: if_splits)
  with p d' accepted
  show "\<exists>d'. parse_nmea_sentence env s = Some (RMC d') \<and> rmc_fix_valid d' \<and>
            \<not> (use_GNSS_time self \<and> isnan (fst (rmc_utc_time d')))"
    by blast
qed

theorem rmc_velocity_witness:
  "vel_reports (published
      (add_sentence sample_env demo_clock default_config init_state rmc_sentence ''gps'' None)) =
     [\<lparr> vel_stamp = demo_clock 1, vel_frame_id = ''gps'',
        vel_linear_x = fmul (rmc_speed rmc_decoded) (fsin (rmc_true_course rmc_decoded)),
        vel_linear_y = fmul (rmc_speed rmc_decoded) (fcos (rmc_true_course rmc_decoded)) \<rparr>]"
  using rmc_velocity [of sample_env rmc_sentence rmc_decoded default_config demo_clock init_state
      "''gps''" None]
  by (simp add: sample_env_simps sample_checksums sample_parses default_config_def rmc_decoded_def
      sample_echoes current_time_of_def)

text \<open>The claim as first stated fails in GNSS-time mode: an RMC sentence with a valid
  fix and an empty time field is rejected before the velocity is computed.\<close>

theorem rmc_velocity_counterexample:
  "check_nmea_checksum sample_env rmc_no_time \<and>
   parse_nmea_sentence sample_env rmc_no_time = Some (RMC (rmc_decoded \<lparr> rmc_utc_time := (NaN, 0) \<rparr>)) \<and>
   rmc_fix_valid (rmc_decoded \<lparr> rmc_utc_time := (NaN, 0) \<rparr>) \<and>
   vel_reports (published
      (add_sentence sample_env demo_clock (default_config \<lparr> use_GNSS_time := True \<rparr>) init_state
         rmc_no_time ''gps'' None)) = []"
  by (simp add: sample_env_simps sample_checksums sample_parses vel_reports_add_sentence
      vel_reports_dispatch handle_RMC_rejected outcome_simps rmc_decoded_def)

section \<open>The standard deviations over sequences of calls\<close>

text \<open>
  C1 (as amended). Over a sequence of calls from the initial state the three standard
  deviations are never negative, after any number of its calls, provided none of the six
  configured default errors is negative and no sentence of the sequence decodes to a GST
  sentence with a negative standard deviation. Whatever the configuration and the parser,
  a call changes them only when it handles a GST sentence, which writes all three from the
  sentence, or when it handles a GGA sentence with RMC-as-position-source disabled, which
  replaces each one on its own: by the quality table's default error (twice it for the
  altitude) when \<open>using_receiver_epe\<close> is false or that value is not-a-number, and not at
  all otherwise; while \<open>using_receiver_epe\<close> is false such a call writes all three.
\<close>

theorem std_dev_writes:
  shows "(defaults_nonneg self \<and> gst_values_nonneg env calls \<longrightarrow>
            (\<forall>n. std_devs_nonneg (run env self init_state (take n calls)))) \<and>
         (std_devs (state_of (add_sentence env clk self st s fr ts)) \<noteq> std_devs st \<longrightarrow>
            check_nmea_checksum env s \<and>
            ((\<exists>d. parse_nmea_sentence env s = Some (GST d) \<and>
                  std_devs (state_of (add_sentence env clk self st s fr ts)) =
                    (gst_lon_std_dev d, gst_lat_std_dev d, gst_alt_std_dev d)) \<or>
             (\<exists>d. parse_nmea_sentence env s = Some (GGA d) \<and> \<not> use_RMC self \<and>
                  lon_std_dev (state_of (add_sentence env clk self st s fr ts)) =
                    (if \<not> using_receiver_epe st \<or> isnan (lon_std_dev st)
                     then default_epe_of self (gga_fix_type d) else lon_std_dev st) \<and>
                  lat_std_dev (state_of (add_sentence env clk self st s fr ts)) =
                    (if \<not> using_receiver_epe st \<or> isnan (lat_std_dev st)
                     then default_epe_of self (gga_fix_type d) else lat_std_dev st) \<and>
                  alt_std_dev (state_of (add_sentence env clk self st s fr ts)) =
                    (if \<not> using_receiver_epe st \<or> isnan (alt_std_dev st)
                     then fmul (default_epe_of self (gga_fix_type d)) (Finite 2)
                     else alt_std_dev st) \<and>
                  (\<not> using_receiver_epe st \<longrightarrow>
                     std_devs (state_of (add_sentence env clk self st s fr ts)) =
                       (default_epe_of self (gga_fix_type d), default_epe_of self (gga_fix_type d),
                        fmul (default_epe_of self (gga_fix_type d)) (Finite 2))))))"
proof (intro conjI impI allI)
  fix n
  assume "defaults_nonneg self \<and> gst_values_nonneg env calls"
  then show "std_devs_nonneg (run env self init_state (take n calls))"
    using run_nonneg [OF _ gst_values_nonneg_take init_state_nonneg] by blast
next
  assume changed: "std_devs (state_of (add_sentence env clk self st s fr ts)) \<noteq> std_devs st"
  then show checked: "check_nmea_checksum env s"
    by (cases "check_nmea_checksum env s") (simp_all add: state_of_add_sentence)
  let ?ct = "current_time_of clk (length (raw_echo clk s)) ts"
  let ?st' = "state_of (add_sentence env clk self st s fr ts)"
  from changed checked obtain p where p: "parse_nmea_sentence env s = Some p"
    by (cases "parse_nmea_sentence env s") (auto simp: state_of_add_sentence)
  with checked have st': "?st' = state_of (dispatch self st p ?ct fr)"
    by (simp add: state_of_add_sentence)
  show "(\<exists>d. parse_nmea_sentence env s = Some (GST d) \<and>
            std_devs ?st' = (gst_lon_std_dev d, gst_lat_std_dev d, gst_alt_std_dev d)) \<or>
        (\<exists>d. parse_nmea_sentence env s = Some (GGA d) \<and> \<not> use_RMC self \<and>
            lon_std_dev ?st' =
              (if \<not> using_receiver_epe st \<or> isnan (lon_std_dev st)
               then default_epe_of self (gga_fix_type d) else lon_std_dev st) \<and>
            lat_std_dev ?st' =
              (if \<not> using_receiver_epe st \<or> isnan (lat_std_dev st)
               then default_epe_of self (gga_fix_type d) else lat_std_dev st) \<and>
            alt_std_dev ?st' =
              (if \<not> using_receiver_epe st \<or> isnan (alt_std_dev st)
               then fmul (default_epe_of self (gga_fix_type d)) (Finite 2)
               else alt_std_dev st) \<and>
            (\<not> using_receiver_epe st \<longrightarrow>
               std_devs ?st' =
                 (default_epe_of self (gga_fix_type d), default_epe_of self (gga_fix_type d),
                  fmul (default_epe_of self (gga_fix_type d)) (Finite 2))))"
  proof (cases p)
    case (GGA d)
    from changed st' GGA have mode: "\<not> use_RMC self"
      by (auto simp: state_of_dispatch)
    with st' GGA have handler: "?st' = state_of (handle_GGA self st d ?ct fr)"
      by (simp add: state_of_dispatch)
    from changed handler have accepted: "\<not> (use_GNSS_time self \<and> isnan (fst (gga_utc_time d)))"
      using handle_GGA_rejected [of self d st ?ct fr] by (auto simp: outcome_simps)
    from p GGA mode accepted show ?thesis
      by (simp add: handler handle_GGA_std_devs_total std_devs_def)
  next
    case (GST d)
    with p st' show ?thesis
      by (simp add: state_of_dispatch handle_GST_def outcome_simps std_devs_def)
  qed (use changed st' in \<open>simp_all add: state_of_dispatch\<close>)
qed

theorem std_dev_writes_witness:
  "std_devs_nonneg (run sample_env default_config init_state
     [(demo_clock, gst_sentence, ''gps'', None), (demo_clock, gga_sentence, ''gps'', None)])"
proof -
  let ?calls = "[(demo_clock, gst_sentence, ''gps'', None), (demo_clock, gga_sentence, ''gps'', None)]"
  have defaults: "defaults_nonneg default_config"
    by (simp add: defaults_nonneg_def default_config_def)
  have receiver: "gst_values_nonneg sample_env ?calls"
    by (simp add: gst_values_nonneg_def sample_env_simps sample_parses gst_nonneg_def
        gst_decoded_def)
  from std_dev_writes [of default_config sample_env ?calls] defaults receiver
  have "std_devs_nonneg (run sample_env default_config init_state (take 2 ?calls))"
    by blast
  then show ?thesis by simp
qed

text \<open>
  The claim as first stated fails three ways. A GST sentence that decodes to a negative
  value stores it. After a GST sentence whose longitude field is empty, the next GGA
  sentence overwrites the longitude standard deviation alone, and with the quality
  table's default rather than GST data.
\<close>

theorem std_dev_writes_counterexample:
  "is_negative (lon_std_dev (run sample_env default_config init_state
     [(demo_clock, gst_negative, ''gps'', None)])) \<and>
   std_devs (run sample_env default_config init_state
     [(demo_clock, gst_partial, ''gps'', None)]) = (NaN, Finite 0.023, Finite 0.031) \<and>
   std_devs (run sample_env default_config init_state
     [(demo_clock, gst_partial, ''gps'', None), (demo_clock, gga_sentence, ''gps'', None)])
     = (Finite 4, Finite 0.023, Finite 0.031)"
  by (simp add: state_of_def [symmetric] state_of_add_sentence state_of_dispatch sample_env_simps
      sample_checksums sample_parses handle_GST_def outcome_simps std_devs_def
      handle_GGA_std_devs_total default_epe_of_table)
     (simp add: gga_decoded_def gst_decoded_def init_state_def default_epe_of_table
        default_config_def)

end
